theory Spec2Isabelle
  imports Complex_Main
begin

section \<open>Invoice memory layer: data model\<close>

text \<open>
  The TypeScript sources are embedded as pure functions. A JavaScript \<open>number\<close> is read as
  a real number (counters as naturals), a string as a list of characters with ASCII case
  mapping, an optional or nullable field as an \<open>option\<close>. The SQLite tables are lists of
  rows in insertion order, \<open>uuidv4()\<close> is a counter of fresh identifiers kept in the store,
  and an ISO-8601 timestamp is the instant it denotes, in milliseconds. The bookkeeping
  columns \<open>created_at\<close>, \<open>updated_at\<close> and \<open>last_used\<close>, the free-text \<open>reasoning\<close>
  of a decision and the audit entries of Recall, Apply and Decide influence no modelled
  result and are left out.
\<close>

datatype jsvalue = JNull | JStr string | JNum real | JFromTo jsvalue jsvalue

record LineItem =
  li_sku :: "string option"
  li_description :: "string option"
  li_qty :: real
  li_unitPrice :: real

record InvoiceFields =
  invoiceNumber :: string
  invoiceDate :: string
  serviceDate :: "string option"
  currency :: "string option"
  poNumber :: "string option"
  netTotal :: real
  taxRate :: real
  taxTotal :: real
  grossTotal :: real
  lineItems :: "LineItem list"
  discountTerms :: "string option"

record Invoice =
  invoiceId :: string
  vendor :: string
  inv_fields :: InvoiceFields
  confidence :: real
  rawText :: string

record PurchaseOrder =
  po_poNumber :: string
  po_vendor :: string
  po_lineItems :: "LineItem list"

record FieldMapping =
  fm_sourceLabel :: string
  fm_targetField :: string
  fm_confidence :: real
  fm_successCount :: nat
  fm_failureCount :: nat

record TaxBehavior =
  tb_isInclusive :: bool
  tb_defaultRate :: real
  tb_confidence :: real

record SkuMapping =
  sm_description :: string
  sm_sku :: string
  sm_confidence :: real
  sm_usageCount :: nat

record VendorMemory =
  vm_id :: nat
  vm_vendorName :: string
  vm_fieldMappings :: "FieldMapping list"
  vm_taxBehavior :: "TaxBehavior option"
  vm_defaultCurrency :: "string option"
  vm_skuMappings :: "SkuMapping list"
  vm_paymentTerms :: "string option"
  vm_confidence :: real
  vm_usageCount :: nat

datatype CorrectionType =
  extract_from_rawtext | recalculate_tax | match_po | map_sku | set_currency | set_payment_terms

record CorrectionMemory =
  cm_id :: nat
  cm_vendorName :: string
  cm_fieldName :: string
  cm_pattern :: string
  cm_correctionType :: CorrectionType
  cm_correctionValue :: jsvalue
  cm_confidence :: real
  cm_successCount :: nat
  cm_failureCount :: nat

datatype decision = approved | rejected

record ResolutionMemory =
  rm_id :: nat
  rm_invoiceId :: string
  rm_vendorName :: string
  rm_discrepancyType :: string
  rm_originalValue :: jsvalue
  rm_correctedValue :: jsvalue
  rm_resolution :: decision
  rm_humanFeedback :: string

record ProcessedInvoice =
  pi_id :: nat
  pi_invoiceNumber :: string
  pi_vendorName :: string
  pi_invoiceDate :: string
  pi_grossTotal :: real
  pi_processedAt :: nat
  pi_hash :: string

record RecalledMemories =
  vendorMemory :: "VendorMemory option"
  correctionMemories :: "CorrectionMemory list"
  resolutionMemories :: "ResolutionMemory list"
  potentialDuplicate :: "ProcessedInvoice option"

record NormalizedLineItem =
  nl_sku :: string
  nl_description :: string
  nl_qty :: real
  nl_unitPrice :: real
  nl_amount :: real

record NormalizedInvoice =
  n_invoiceId :: string
  n_vendor :: string
  n_invoiceNumber :: string
  n_invoiceDate :: string
  n_serviceDate :: "string option"
  n_currency :: string
  n_poNumber :: "string option"
  n_netTotal :: real
  n_taxRate :: real
  n_taxTotal :: real
  n_grossTotal :: real
  n_lineItems :: "NormalizedLineItem list"
  n_discountTerms :: "string option"

record ProposedCorrection =
  pc_field :: string
  pc_originalValue :: jsvalue
  pc_proposedValue :: jsvalue
  pc_confidence :: real
  pc_autoApplied :: bool

section \<open>Decide (services/decide.ts)\<close>

definition AUTO_ACCEPT_THRESHOLD :: real where
  "AUTO_ACCEPT_THRESHOLD = 0.85"

definition AUTO_CORRECT_THRESHOLD :: real where
  "AUTO_CORRECT_THRESHOLD = 0.60"

definition ESCALATE_THRESHOLD :: real where
  "ESCALATE_THRESHOLD = 0.40"

text \<open>
  The escalation reasons are template strings in the source; each template is one
  constructor here, carrying the values the template interpolates.
\<close>

datatype escalation =
    PotentialDuplicate string nat
  | NewOrLowHistoryVendor
  | LowConfidenceCorrection string real
  | PendingCorrection string real
  | ConflictingPatterns
  | MissingCriticalField string
  | OverallConfidenceTooLow real

record DecisionResult =
  requiresHumanReview :: bool
  confidenceScore :: real
  escalationReasons :: "escalation list"

definition hasConflictingMemories :: "RecalledMemories \<Rightarrow> bool" where
  "hasConflictingMemories memories =
     (let rs = resolutionMemories memories;
          nApproved = length (filter (\<lambda>r. rm_resolution r = approved) rs);
          nRejected = length (filter (\<lambda>r. rm_resolution r = rejected) rs)
      in if length rs \<ge> 3 \<and> real nRejected / real (nApproved + nRejected) > 0.4 then True
         else filter (\<lambda>c. cm_failureCount c > cm_successCount c) (correctionMemories memories) \<noteq> [])"

definition checkMissingFields :: "NormalizedInvoice \<Rightarrow> ProposedCorrection list \<Rightarrow> string list" where
  "checkMissingFields invoice corrections =
     (if n_currency invoice = [] \<and> find (\<lambda>c. pc_field c = ''currency'') corrections = None
      then [''currency''] else [])"

definition calculateOverallConfidence ::
  "real \<Rightarrow> RecalledMemories \<Rightarrow> ProposedCorrection list \<Rightarrow> real" where
  "calculateOverallConfidence originalConfidence memories corrections =
     (let score0 = originalConfidence;
          score1 = (case vendorMemory memories of
                      None \<Rightarrow> score0
                    | Some vm \<Rightarrow> min 1.0 (score0 + vm_confidence vm * 0.1));
          autoAppliedCorrections = filter pc_autoApplied corrections;
          score2 = (if length autoAppliedCorrections > 0
                    then (score1 + foldl (\<lambda>sum c. sum + pc_confidence c) 0 autoAppliedCorrections
                                     / real (length autoAppliedCorrections)) / 2
                    else score1);
          pendingCorrections = filter (\<lambda>c. \<not> pc_autoApplied c) corrections;
          score3 = (if length pendingCorrections > 0 then score2 * 0.9 else score2);
          score4 = (if potentialDuplicate memories \<noteq> None then score3 * 0.5 else score3);
          score5 = (if (case vendorMemory memories of None \<Rightarrow> True | Some vm \<Rightarrow> vm_usageCount vm < 2)
                    then score4 * 0.8 else score4)
      in max 0.1 (min 1.0 score5))"

definition makeDecision ::
  "NormalizedInvoice \<Rightarrow> ProposedCorrection list \<Rightarrow> RecalledMemories \<Rightarrow> real \<Rightarrow> DecisionResult" where
  "makeDecision normalizedInvoice proposedCorrections memories originalConfidence =
     (let (review1, reasons1) =
            (case potentialDuplicate memories of
               Some d \<Rightarrow> (True, [PotentialDuplicate (pi_invoiceNumber d) (pi_processedAt d)])
             | None \<Rightarrow> (False, []));
          isNewVendor = (case vendorMemory memories of None \<Rightarrow> True | Some vm \<Rightarrow> vm_usageCount vm < 2);
          (review2, reasons2) =
            (if isNewVendor then (True, reasons1 @ [NewOrLowHistoryVendor]) else (review1, reasons1));
          lowConfidenceCorrections = filter (\<lambda>c. pc_confidence c < ESCALATE_THRESHOLD) proposedCorrections;
          (review3, reasons3) =
            (if length lowConfidenceCorrections > 0
             then (True, reasons2 @ map (\<lambda>c. LowConfidenceCorrection (pc_field c) (pc_confidence c))
                                        lowConfidenceCorrections)
             else (review2, reasons2));
          pendingCorrections =
            filter (\<lambda>c. \<not> pc_autoApplied c \<and> pc_confidence c \<ge> ESCALATE_THRESHOLD) proposedCorrections;
          (review4, reasons4) =
            (if length pendingCorrections > 0
             then (True, reasons3 @ map (\<lambda>c. PendingCorrection (pc_field c) (pc_confidence c))
                                        pendingCorrections)
             else (review3, reasons3));
          (review5, reasons5) =
            (if hasConflictingMemories memories then (True, reasons4 @ [ConflictingPatterns])
             else (review4, reasons4));
          missingFields = checkMissingFields normalizedInvoice proposedCorrections;
          (review6, reasons6) =
            (if length missingFields > 0 then (True, reasons5 @ map MissingCriticalField missingFields)
             else (review5, reasons5));
          score = calculateOverallConfidence originalConfidence memories proposedCorrections;
          (review7, reasons7) =
            (if \<not> review6
             then (if score \<ge> AUTO_ACCEPT_THRESHOLD then (review6, reasons6)
                   else if score \<ge> AUTO_CORRECT_THRESHOLD then (review6, reasons6)
                   else (True, reasons6 @ [OverallConfidenceTooLow score]))
             else (review6, reasons6))
      in \<lparr> requiresHumanReview = review7, confidenceScore = score, escalationReasons = reasons7 \<rparr>)"

text \<open>
  The overall confidence as the specification words it: six steps applied in order to the
  base confidence, then the clamp. Used only to compare with the source's function.
\<close>

definition spec_boostVendor :: "RecalledMemories \<Rightarrow> real \<Rightarrow> real" where
  "spec_boostVendor m s = (if vendorMemory m = None then s
                           else min 1 (s + 0.1 * vm_confidence (the (vendorMemory m))))"

definition spec_averageAutoApplied :: "ProposedCorrection list \<Rightarrow> real \<Rightarrow> real" where
  "spec_averageAutoApplied cs s =
     (if \<exists>c \<in> set cs. pc_autoApplied c
      then (s + sum_list (map pc_confidence (filter pc_autoApplied cs))
                  / real (length (filter pc_autoApplied cs))) / 2
      else s)"

definition spec_penalisePending :: "ProposedCorrection list \<Rightarrow> real \<Rightarrow> real" where
  "spec_penalisePending cs s = (if \<exists>c \<in> set cs. \<not> pc_autoApplied c then 0.9 * s else s)"

definition spec_penaliseDuplicate :: "RecalledMemories \<Rightarrow> real \<Rightarrow> real" where
  "spec_penaliseDuplicate m s = (if potentialDuplicate m = None then s else 0.5 * s)"

definition spec_penaliseNewVendor :: "RecalledMemories \<Rightarrow> real \<Rightarrow> real" where
  "spec_penaliseNewVendor m s =
     (if vendorMemory m = None \<or> vm_usageCount (the (vendorMemory m)) < 2 then 0.8 * s else s)"

definition spec_clamp :: "real \<Rightarrow> real \<Rightarrow> real \<Rightarrow> real" where
  "spec_clamp lo hi x = (if x < lo then lo else if x > hi then hi else x)"

definition spec_overallConfidence ::
  "real \<Rightarrow> RecalledMemories \<Rightarrow> ProposedCorrection list \<Rightarrow> real" where
  "spec_overallConfidence baseConfidence m cs =
     spec_clamp 0.1 1.0
       (spec_penaliseNewVendor m
         (spec_penaliseDuplicate m
           (spec_penalisePending cs
             (spec_averageAutoApplied cs
               (spec_boostVendor m baseConfidence)))))"

section \<open>Recall: confidence decay (services/recall.ts)\<close>


section \<open>Strings\<close>

text \<open>
  The string methods the sources call, on ASCII text: \<open>toLowerCase\<close>, \<open>startsWith\<close>,
  \<open>includes\<close> (a contiguous occurrence) and \<open>trim\<close>.
\<close>

definition lowerChar :: "char \<Rightarrow> char" where
  "lowerChar c = (case map_of (zip ''ABCDEFGHIJKLMNOPQRSTUVWXYZ'' ''abcdefghijklmnopqrstuvwxyz'') c of
                    Some l \<Rightarrow> l | None \<Rightarrow> c)"

definition toLowerCase :: "string \<Rightarrow> string" where
  "toLowerCase s = map lowerChar s"

fun startsWith :: "string \<Rightarrow> string \<Rightarrow> bool" where
  "startsWith s [] = True"
| "startsWith [] (c # t) = False"
| "startsWith (x # s) (c # t) = (x = c \<and> startsWith s t)"

fun strIncludes :: "string \<Rightarrow> string \<Rightarrow> bool" where
  "strIncludes [] t = (t = [])"
| "strIncludes (x # s) t = (startsWith (x # s) t \<or> strIncludes s t)"

definition isSpace :: "char \<Rightarrow> bool" where
  "isSpace c = (c \<in> set [CHR '' '', CHR 0x09, CHR 0x0A, CHR 0x0B, CHR 0x0C, CHR 0x0D])"

definition trim :: "string \<Rightarrow> string" where
  "trim s = rev (dropWhile isSpace (rev (dropWhile isSpace s)))"

definition isDigit :: "char \<Rightarrow> bool" where
  "isDigit c = (c \<in> set ''0123456789'')"

definition digitVal :: "char \<Rightarrow> nat" where
  "digitVal c = (case map_of (zip ''0123456789'' [0, 1, 2, 3, 4, 5, 6, 7, 8, 9]) c of
                   Some d \<Rightarrow> d | None \<Rightarrow> 0)"

definition parseInt :: "string \<Rightarrow> nat" where
  "parseInt ds = foldl (\<lambda>n c. 10 * n + digitVal c) 0 ds"

section \<open>The knowledge store (db/connection.ts)\<close>

record Store =
  vendor_memories :: "VendorMemory list"
  correction_memories :: "CorrectionMemory list"
  resolution_memories :: "ResolutionMemory list"
  processed_invoices :: "ProcessedInvoice list"
  nextId :: nat

definition emptyStore :: Store where
  "emptyStore = \<lparr> vendor_memories = [], correction_memories = [], resolution_memories = [],
                  processed_invoices = [], nextId = 0 \<rparr>"

text \<open>
  \<open>ORDER BY key DESC\<close>: rows by descending key; rows with equal keys stay in insertion
  order (SQLite leaves their order open).
\<close>

fun insertDesc :: "('a \<Rightarrow> 'k::linorder) \<Rightarrow> 'a \<Rightarrow> 'a list \<Rightarrow> 'a list" where
  "insertDesc key r [] = [r]"
| "insertDesc key r (x # xs) = (if key x \<ge> key r then x # insertDesc key r xs else r # x # xs)"

definition orderByDesc :: "('a \<Rightarrow> 'k::linorder) \<Rightarrow> 'a list \<Rightarrow> 'a list" where
  "orderByDesc key rows = foldl (\<lambda>acc r. insertDesc key r acc) [] rows"

fun updateFirst :: "('a \<Rightarrow> bool) \<Rightarrow> ('a \<Rightarrow> 'a) \<Rightarrow> 'a list \<Rightarrow> 'a list" where
  "updateFirst P f [] = []"
| "updateFirst P f (x # xs) = (if P x then f x # xs else x # updateFirst P f xs)"

section \<open>Correction memory (memory/correctionMemory.ts)\<close>

definition getCorrectionMemories :: "Store \<Rightarrow> string \<Rightarrow> CorrectionMemory list" where
  "getCorrectionMemories st vendorName =
     orderByDesc cm_confidence (filter (\<lambda>c. cm_vendorName c = vendorName) (correction_memories st))"

definition findMatchingCorrection ::
  "Store \<Rightarrow> string \<Rightarrow> string \<Rightarrow> string option \<Rightarrow> CorrectionMemory option" where
  "findMatchingCorrection st vendorName fieldName pattern =
     (let corrections = getCorrectionMemories st vendorName;
          matches = filter (\<lambda>c.
            if cm_fieldName c \<noteq> fieldName then False
            else (case pattern of
                    Some p \<Rightarrow>
                      if p \<noteq> [] \<and> cm_pattern c \<noteq> []
                      then strIncludes (toLowerCase (cm_pattern c)) (toLowerCase p)
                           \<or> strIncludes (toLowerCase p) (toLowerCase (cm_pattern c))
                      else True
                  | None \<Rightarrow> True)) corrections
      in case matches of [] \<Rightarrow> None | m # _ \<Rightarrow> Some m)"

definition calculateCorrectionConfidence :: "nat \<Rightarrow> nat \<Rightarrow> real" where
  "calculateCorrectionConfidence successCount failureCount =
     (let total = successCount + failureCount
      in if total = 0 then 0.5
         else let observationFactor = min 1.0 (real total / 3);
                  adjustedRate = real successCount / real (successCount + failureCount * 2)
              in min 0.95 (max 0.1 (0.3 + adjustedRate * 0.65 * observationFactor)))"

definition reinforceCorrection :: "Store \<Rightarrow> nat \<Rightarrow> Store" where
  "reinforceCorrection st correctionId =
     (case find (\<lambda>c. cm_id c = correctionId) (correction_memories st) of
        None \<Rightarrow> st
      | Some row \<Rightarrow>
          let successCount = cm_successCount row + 1;
              failureCount = cm_failureCount row;
              newConfidence = calculateCorrectionConfidence successCount failureCount
          in st\<lparr> correction_memories :=
                   map (\<lambda>c. if cm_id c = correctionId
                             then c\<lparr> cm_successCount := successCount, cm_confidence := newConfidence \<rparr>
                             else c) (correction_memories st) \<rparr>)"

definition weakenCorrection :: "Store \<Rightarrow> nat \<Rightarrow> Store" where
  "weakenCorrection st correctionId =
     (case find (\<lambda>c. cm_id c = correctionId) (correction_memories st) of
        None \<Rightarrow> st
      | Some row \<Rightarrow>
          let successCount = cm_successCount row;
              failureCount = cm_failureCount row + 1;
              newConfidence = calculateCorrectionConfidence successCount failureCount
          in st\<lparr> correction_memories :=
                   map (\<lambda>c. if cm_id c = correctionId
                             then c\<lparr> cm_failureCount := failureCount, cm_confidence := newConfidence \<rparr>
                             else c) (correction_memories st) \<rparr>)"

definition truthy :: "jsvalue \<Rightarrow> bool" where
  "truthy v = (case v of JNull \<Rightarrow> False | JStr s \<Rightarrow> s \<noteq> [] | JNum x \<Rightarrow> x \<noteq> 0 | JFromTo a b \<Rightarrow> True)"

definition recordCorrection ::
  "Store \<Rightarrow> string \<Rightarrow> string \<Rightarrow> string \<Rightarrow> CorrectionType \<Rightarrow> jsvalue \<Rightarrow> Store \<times> CorrectionMemory" where
  "recordCorrection st vendorName fieldName pattern correctionType correctionValue =
     (case findMatchingCorrection st vendorName fieldName (Some pattern) of
        Some existing \<Rightarrow>
          (reinforceCorrection st (cm_id existing),
           existing\<lparr> cm_successCount := cm_successCount existing + 1 \<rparr>)
      | None \<Rightarrow>
          let memory = \<lparr> cm_id = nextId st, cm_vendorName = vendorName, cm_fieldName = fieldName,
                          cm_pattern = pattern, cm_correctionType = correctionType,
                          cm_correctionValue = correctionValue, cm_confidence = 0.6,
                          cm_successCount = 1, cm_failureCount = 0 \<rparr>;
              row = memory\<lparr> cm_correctionValue :=
                             (if truthy correctionValue then correctionValue else JNull) \<rparr>
          in (st\<lparr> correction_memories := correction_memories st @ [row],
                    nextId := nextId st + 1 \<rparr>, memory))"

text \<open>
  The recomputation rule as the specification words it: the clamp of
  \<open>0.3 + adjustedRate * 0.65 * observationFactor\<close> to [0.1, 0.95].
\<close>

definition spec_correctionConfidence :: "nat \<Rightarrow> nat \<Rightarrow> real" where
  "spec_correctionConfidence successCount failureCount =
     spec_clamp 0.1 0.95
       (0.3 + (real successCount / (real successCount + 2 * real failureCount)) * 0.65
              * min 1.0 ((real successCount + real failureCount) / 3))"

text \<open>A sequence of create, reinforce and weaken operations on the correction table.\<close>

datatype correction_op =
    OpRecord string string string CorrectionType jsvalue
  | OpReinforce nat
  | OpWeaken nat

fun applyCorrectionOp :: "Store \<Rightarrow> correction_op \<Rightarrow> Store" where
  "applyCorrectionOp st (OpRecord v f p t x) = fst (recordCorrection st v f p t x)"
| "applyCorrectionOp st (OpReinforce i) = reinforceCorrection st i"
| "applyCorrectionOp st (OpWeaken i) = weakenCorrection st i"

definition runCorrectionOps :: "Store \<Rightarrow> correction_op list \<Rightarrow> Store" where
  "runCorrectionOps st ops = foldl applyCorrectionOp st ops"

section \<open>Vendor memory (memory/vendorMemory.ts)\<close>

definition getVendorMemory :: "Store \<Rightarrow> string \<Rightarrow> VendorMemory option" where
  "getVendorMemory st vendorName = find (\<lambda>v. vm_vendorName v = vendorName) (vendor_memories st)"

definition createVendorMemory :: "Store \<Rightarrow> string \<Rightarrow> Store \<times> VendorMemory" where
  "createVendorMemory st vendorName =
     (let memory = \<lparr> vm_id = nextId st, vm_vendorName = vendorName, vm_fieldMappings = [],
                      vm_taxBehavior = None, vm_defaultCurrency = None, vm_skuMappings = [],
                      vm_paymentTerms = None, vm_confidence = 0.5, vm_usageCount = 0 \<rparr>
      in (st\<lparr> vendor_memories := vendor_memories st @ [memory], nextId := nextId st + 1 \<rparr>, memory))"

definition getOrCreateVendorMemory :: "Store \<Rightarrow> string \<Rightarrow> Store \<times> VendorMemory" where
  "getOrCreateVendorMemory st vendorName =
     (case getVendorMemory st vendorName of
        Some memory \<Rightarrow> (st, memory)
      | None \<Rightarrow> createVendorMemory st vendorName)"

definition updateVendorRows :: "Store \<Rightarrow> string \<Rightarrow> (VendorMemory \<Rightarrow> VendorMemory) \<Rightarrow> Store" where
  "updateVendorRows st vendorName f =
     st\<lparr> vendor_memories := map (\<lambda>v. if vm_vendorName v = vendorName then f v else v)
                                   (vendor_memories st) \<rparr>"

definition calculateConfidence :: "nat \<Rightarrow> nat \<Rightarrow> real" where
  "calculateConfidence successCount failureCount =
     (let total = successCount + failureCount
      in if total = 0 then 0.5
         else let successRate = real successCount / real total;
                  observationFactor = min 1.0 (real total / 3)
              in min 0.95 (0.3 + (successRate * 0.65 * observationFactor)))"

definition subMemoryConfidences :: "VendorMemory \<Rightarrow> real list" where
  "subMemoryConfidences memory =
     map fm_confidence (vm_fieldMappings memory)
     @ (case vm_taxBehavior memory of Some t \<Rightarrow> [tb_confidence t] | None \<Rightarrow> [])
     @ map sm_confidence (vm_skuMappings memory)"

definition calculateOverallConfidence_vendor :: "VendorMemory \<Rightarrow> real" where
  "calculateOverallConfidence_vendor memory =
     (let confidences = subMemoryConfidences memory
      in if length confidences = 0 then 0.5
         else let avg = foldl (\<lambda>a b. a + b) 0 confidences / real (length confidences);
                  usageFactor = min 1.0 (real (vm_usageCount memory) / 5)
              in 0.3 + (avg * 0.7 * usageFactor))"

definition updateFieldMapping :: "Store \<Rightarrow> string \<Rightarrow> string \<Rightarrow> string \<Rightarrow> bool \<Rightarrow> Store" where
  "updateFieldMapping st vendorName sourceLabel targetField success =
     (let (st1, memory) = getOrCreateVendorMemory st vendorName;
          isExisting = (\<lambda>m. toLowerCase (fm_sourceLabel m) = toLowerCase sourceLabel
                             \<and> fm_targetField m = targetField);
          fieldMappings =
            (case find isExisting (vm_fieldMappings memory) of
               Some existingMapping \<Rightarrow>
                 updateFirst isExisting
                   (\<lambda>m. if success
                         then m\<lparr> fm_successCount := fm_successCount m + 1,
                                 fm_confidence := calculateConfidence (fm_successCount m + 1) (fm_failureCount m) \<rparr>
                         else m\<lparr> fm_failureCount := fm_failureCount m + 1,
                                 fm_confidence := calculateConfidence (fm_successCount m) (fm_failureCount m + 1) \<rparr>)
                   (vm_fieldMappings memory)
             | None \<Rightarrow>
                 vm_fieldMappings memory
                 @ [\<lparr> fm_sourceLabel = sourceLabel, fm_targetField = targetField,
                       fm_confidence = (if success then 0.6 else 0.3),
                       fm_successCount = (if success then 1 else 0),
                       fm_failureCount = (if success then 0 else 1) \<rparr>]);
          memory1 = memory\<lparr> vm_fieldMappings := fieldMappings, vm_usageCount := vm_usageCount memory + 1 \<rparr>;
          memory2 = memory1\<lparr> vm_confidence := calculateOverallConfidence_vendor memory1 \<rparr>
      in updateVendorRows st1 vendorName
           (\<lambda>v. v\<lparr> vm_fieldMappings := vm_fieldMappings memory2, vm_confidence := vm_confidence memory2,
                     vm_usageCount := vm_usageCount memory2 \<rparr>))"

definition updateTaxBehavior :: "Store \<Rightarrow> string \<Rightarrow> bool \<Rightarrow> real \<Rightarrow> bool \<Rightarrow> Store" where
  "updateTaxBehavior st vendorName isInclusive defaultRate success =
     (let (st1, memory) = getOrCreateVendorMemory st vendorName;
          taxBehavior =
            (case vm_taxBehavior memory of
               Some t \<Rightarrow> t\<lparr> tb_confidence := (if success then min 1.0 (tb_confidence t + 0.1)
                                                 else max 0.1 (tb_confidence t - 0.2)) \<rparr>
             | None \<Rightarrow> \<lparr> tb_isInclusive = isInclusive, tb_defaultRate = defaultRate,
                           tb_confidence = (if success then 0.6 else 0.3) \<rparr>);
          memory1 = memory\<lparr> vm_taxBehavior := Some taxBehavior, vm_usageCount := vm_usageCount memory + 1 \<rparr>;
          memory2 = memory1\<lparr> vm_confidence := calculateOverallConfidence_vendor memory1 \<rparr>
      in updateVendorRows st1 vendorName
           (\<lambda>v. v\<lparr> vm_taxBehavior := vm_taxBehavior memory2, vm_confidence := vm_confidence memory2,
                     vm_usageCount := vm_usageCount memory2 \<rparr>))"

definition updateDefaultCurrency :: "Store \<Rightarrow> string \<Rightarrow> string \<Rightarrow> Store" where
  "updateDefaultCurrency st vendorName currency' =
     (let (st1, memory) = getOrCreateVendorMemory st vendorName;
          usageCount = vm_usageCount memory + 1
      in updateVendorRows st1 vendorName
           (\<lambda>v. v\<lparr> vm_defaultCurrency := Some currency', vm_usageCount := usageCount \<rparr>))"

definition updateSkuMapping :: "Store \<Rightarrow> string \<Rightarrow> string \<Rightarrow> string \<Rightarrow> bool \<Rightarrow> Store" where
  "updateSkuMapping st vendorName description sku success =
     (let (st1, memory) = getOrCreateVendorMemory st vendorName;
          normalizedDesc = trim (toLowerCase description);
          isExisting = (\<lambda>m. strIncludes (toLowerCase (sm_description m)) normalizedDesc
                             \<or> strIncludes normalizedDesc (toLowerCase (sm_description m)));
          skuMappings =
            (case find isExisting (vm_skuMappings memory) of
               Some existingMapping \<Rightarrow>
                 updateFirst isExisting
                   (\<lambda>m. if success
                         then m\<lparr> sm_usageCount := sm_usageCount m + 1,
                                 sm_confidence := min 1.0 (sm_confidence m + 0.1) \<rparr>
                         else m\<lparr> sm_confidence := max 0.1 (sm_confidence m - 0.2) \<rparr>)
                   (vm_skuMappings memory)
             | None \<Rightarrow>
                 vm_skuMappings memory
                 @ [\<lparr> sm_description = normalizedDesc, sm_sku = sku,
                       sm_confidence = (if success then 0.6 else 0.3), sm_usageCount = 1 \<rparr>]);
          memory1 = memory\<lparr> vm_skuMappings := skuMappings, vm_usageCount := vm_usageCount memory + 1 \<rparr>;
          memory2 = memory1\<lparr> vm_confidence := calculateOverallConfidence_vendor memory1 \<rparr>
      in updateVendorRows st1 vendorName
           (\<lambda>v. v\<lparr> vm_skuMappings := vm_skuMappings memory2, vm_confidence := vm_confidence memory2,
                     vm_usageCount := vm_usageCount memory2 \<rparr>))"

definition updatePaymentTerms :: "Store \<Rightarrow> string \<Rightarrow> string \<Rightarrow> Store" where
  "updatePaymentTerms st vendorName terms =
     (let (st1, memory) = getOrCreateVendorMemory st vendorName;
          usageCount = vm_usageCount memory + 1
      in updateVendorRows st1 vendorName
           (\<lambda>v. v\<lparr> vm_paymentTerms := Some terms, vm_usageCount := usageCount \<rparr>))"

definition recordVendorUsage :: "Store \<Rightarrow> string \<Rightarrow> Store" where
  "recordVendorUsage st vendorName =
     (case getVendorMemory st vendorName of
        Some memory \<Rightarrow> updateVendorRows st vendorName (\<lambda>v. v\<lparr> vm_usageCount := vm_usageCount v + 1 \<rparr>)
      | None \<Rightarrow> st)"

text \<open>
  The aggregate confidence as the specification words it, and the consistency of a stored
  vendor row with it.
\<close>

definition spec_vendorConfidence :: "VendorMemory \<Rightarrow> real" where
  "spec_vendorConfidence memory =
     0.3 + (sum_list (subMemoryConfidences memory) / real (length (subMemoryConfidences memory)))
           * 0.7 * min 1.0 (real (vm_usageCount memory) / 5)"

section \<open>Resolution memory (memory/resolutionMemory.ts)\<close>

definition recordResolution ::
  "Store \<Rightarrow> string \<Rightarrow> string \<Rightarrow> string \<Rightarrow> jsvalue \<Rightarrow> jsvalue \<Rightarrow> decision \<Rightarrow> string \<Rightarrow> Store" where
  "recordResolution st invoiceId' vendorName discrepancyType originalValue correctedValue resolution
       humanFeedback =
     st\<lparr> resolution_memories := resolution_memories st
            @ [\<lparr> rm_id = nextId st, rm_invoiceId = invoiceId', rm_vendorName = vendorName,
                  rm_discrepancyType = discrepancyType, rm_originalValue = originalValue,
                  rm_correctedValue = correctedValue, rm_resolution = resolution,
                  rm_humanFeedback = humanFeedback \<rparr>],
         nextId := nextId st + 1 \<rparr>"

section \<open>Duplicate detection (utils/duplicateDetection.ts)\<close>









text \<open>
  The MD5 digest and the rendering of a number inside a template string are library
  functions; they are parameters \<open>md5\<close> and \<open>numberToString\<close> of the model.
\<close>

definition generateInvoiceHash :: "(string \<Rightarrow> string) \<Rightarrow> (real \<Rightarrow> string) \<Rightarrow> Invoice \<Rightarrow> string" where
  "generateInvoiceHash md5 numberToString invoice =
     md5 (vendor invoice @ ''|'' @ invoiceNumber (inv_fields invoice) @ ''|''
          @ numberToString (grossTotal (inv_fields invoice)))"



definition ledgerEntry ::
  "(string \<Rightarrow> string) \<Rightarrow> (real \<Rightarrow> string) \<Rightarrow> nat \<Rightarrow> nat \<Rightarrow> Invoice \<Rightarrow> ProcessedInvoice" where
  "ledgerEntry md5 numberToString now id' invoice =
     \<lparr> pi_id = id', pi_invoiceNumber = invoiceNumber (inv_fields invoice),
       pi_vendorName = vendor invoice, pi_invoiceDate = invoiceDate (inv_fields invoice),
       pi_grossTotal = grossTotal (inv_fields invoice), pi_processedAt = now,
       pi_hash = generateInvoiceHash md5 numberToString invoice \<rparr>"

definition recordProcessedInvoice ::
  "(string \<Rightarrow> string) \<Rightarrow> (real \<Rightarrow> string) \<Rightarrow> nat \<Rightarrow> Store \<Rightarrow> Invoice \<Rightarrow> Store" where
  "recordProcessedInvoice md5 numberToString now st invoice =
     st\<lparr> processed_invoices :=
            processed_invoices st @ [ledgerEntry md5 numberToString now (nextId st) invoice],
         nextId := nextId st + 1 \<rparr>"

section \<open>Apply (services/apply.ts)\<close>

definition AUTO_APPLY_THRESHOLD :: real where
  "AUTO_APPLY_THRESHOLD = 0.85"

text \<open>
  The specification treats the raw-text extractors as pluggable collaborators. The three
  that build or run regular expressions over free text (\<open>extractFromRawText\<close>, whose
  expression is assembled from the stored label, \<open>recalculateGrossFromRawText\<close> and
  \<open>extractPaymentTerms\<close>) are parameters of the model, so every result below holds for
  whatever they return. \<open>extractCurrencyFromRawText\<close> is embedded.
\<close>

record Extractors =
  extractFromRawText :: "string \<Rightarrow> string \<Rightarrow> string option"
  recalculateGrossFromRawText :: "string \<Rightarrow> real \<Rightarrow> real option"
  extractPaymentTerms :: "string \<Rightarrow> string option"

record ApplyResult =
  ar_normalizedInvoice :: NormalizedInvoice
  ar_proposedCorrections :: "ProposedCorrection list"

definition absent :: "string option \<Rightarrow> bool" where
  "absent x = (case x of None \<Rightarrow> True | Some s \<Rightarrow> s = [])"

definition orUndefined :: "string option \<Rightarrow> string option" where
  "orUndefined x = (if absent x then None else x)"

definition orElse :: "string option \<Rightarrow> string \<Rightarrow> string" where
  "orElse x d = (case x of None \<Rightarrow> d | Some s \<Rightarrow> if s = [] then d else s)"

definition orNull :: "string \<Rightarrow> jsvalue" where
  "orNull s = (if s = [] then JNull else JStr s)"

definition normalizeLineItems :: "LineItem list \<Rightarrow> NormalizedLineItem list" where
  "normalizeLineItems items =
     map (\<lambda>item. \<lparr> nl_sku = orElse (li_sku item) ''UNKNOWN'',
                     nl_description = orElse (li_description item) [],
                     nl_qty = li_qty item, nl_unitPrice = li_unitPrice item,
                     nl_amount = li_qty item * li_unitPrice item \<rparr>) items"

definition initialNormalized :: "Invoice \<Rightarrow> NormalizedInvoice" where
  "initialNormalized invoice =
     \<lparr> n_invoiceId = invoiceId invoice,
       n_vendor = vendor invoice,
       n_invoiceNumber = invoiceNumber (inv_fields invoice),
       n_invoiceDate = invoiceDate (inv_fields invoice),
       n_serviceDate = orUndefined (serviceDate (inv_fields invoice)),
       n_currency = orElse (currency (inv_fields invoice)) ''EUR'',
       n_poNumber = orUndefined (poNumber (inv_fields invoice)),
       n_netTotal = netTotal (inv_fields invoice),
       n_taxRate = taxRate (inv_fields invoice),
       n_taxTotal = taxTotal (inv_fields invoice),
       n_grossTotal = grossTotal (inv_fields invoice),
       n_lineItems = normalizeLineItems (lineItems (inv_fields invoice)),
       n_discountTerms = orUndefined (discountTerms (inv_fields invoice)) \<rparr>"

definition upperChar :: "char \<Rightarrow> char" where
  "upperChar c = (case map_of (zip ''abcdefghijklmnopqrstuvwxyz'' ''ABCDEFGHIJKLMNOPQRSTUVWXYZ'') c of
                    Some u \<Rightarrow> u | None \<Rightarrow> c)"

definition toUpperCase :: "string \<Rightarrow> string" where
  "toUpperCase s = map upperChar s"

definition isLetter :: "char \<Rightarrow> bool" where
  "isLetter c = (c \<in> set ''ABCDEFGHIJKLMNOPQRSTUVWXYZabcdefghijklmnopqrstuvwxyz'')"

definition isWordChar :: "char \<Rightarrow> bool" where
  "isWordChar c = (isLetter c \<or> isDigit c \<or> c = CHR ''_'')"

text \<open>\<open>/Currency[:\s]+([A-Z]{3})/i\<close> anchored at the head of the text.\<close>

definition matchCurrencyLabel :: "string \<Rightarrow> string option" where
  "matchCurrencyLabel s =
     (if toLowerCase (take 8 s) = ''currency''
      then let rest = drop 8 s;
               seps = takeWhile (\<lambda>c. c = CHR '':'' \<or> isSpace c) rest;
               after = dropWhile (\<lambda>c. c = CHR '':'' \<or> isSpace c) rest
           in if seps \<noteq> [] \<and> length after \<ge> 3 \<and> list_all isLetter (take 3 after)
              then Some (take 3 after) else None
      else None)"

fun searchCurrencyLabel :: "string \<Rightarrow> string option" where
  "searchCurrencyLabel [] = None"
| "searchCurrencyLabel (c # cs) =
     (case matchCurrencyLabel (c # cs) of
        Some g \<Rightarrow> Some g
      | None \<Rightarrow> searchCurrencyLabel cs)"

text \<open>\<open>/\b(EUR|USD|GBP|CHF)\b/i\<close>: the scan keeps the character before the position.\<close>

fun searchCurrencyCode :: "char option \<Rightarrow> string \<Rightarrow> string option" where
  "searchCurrencyCode prev [] = None"
| "searchCurrencyCode prev (c # cs) =
     (if (case prev of None \<Rightarrow> True | Some p \<Rightarrow> \<not> isWordChar p)
         \<and> toLowerCase (take 3 (c # cs)) \<in> set [''eur'', ''usd'', ''gbp'', ''chf'']
         \<and> (case drop 3 (c # cs) of [] \<Rightarrow> True | n # _ \<Rightarrow> \<not> isWordChar n)
      then Some (take 3 (c # cs))
      else searchCurrencyCode (Some c) cs)"

definition extractCurrencyFromRawText :: "string \<Rightarrow> string option" where
  "extractCurrencyFromRawText rawText' =
     (case searchCurrencyLabel rawText' of
        Some g \<Rightarrow> Some (toUpperCase g)
      | None \<Rightarrow>
     (case searchCurrencyCode None rawText' of
        Some g \<Rightarrow> Some (toUpperCase g)
      | None \<Rightarrow> None))"

record POMatch =
  pm_poNumber :: string
  pm_confidence :: real

definition poCandidate :: "string list \<Rightarrow> nat \<Rightarrow> PurchaseOrder \<Rightarrow> POMatch option" where
  "poCandidate invoiceSKUs nVendorPOs po =
     (let poSKUs = map li_sku (po_lineItems po);
          matchingSKUs = filter (\<lambda>sku. Some sku \<in> set poSKUs) invoiceSKUs
      in if length matchingSKUs > 0
         then let skuMatchRatio = real (length matchingSKUs)
                                    / real (max (length invoiceSKUs) (length poSKUs));
                  uniquenessBonus = (if nVendorPOs = 1 then 0.2 else 0);
                  confidence' = min 0.95 (0.5 + skuMatchRatio * 0.3 + uniquenessBonus)
              in Some \<lparr> pm_poNumber = po_poNumber po, pm_confidence = confidence' \<rparr>
         else None)"

definition matchPurchaseOrder :: "Invoice \<Rightarrow> PurchaseOrder list \<Rightarrow> POMatch option" where
  "matchPurchaseOrder invoice purchaseOrders =
     (let vendorPOs = filter (\<lambda>po. po_vendor po = vendor invoice) purchaseOrders
      in if length vendorPOs = 0 then None
         else let invoiceSKUs = concat (map (\<lambda>i. case li_sku i of
                                                    None \<Rightarrow> []
                                                  | Some k \<Rightarrow> if k = [] then [] else [k])
                                           (lineItems (inv_fields invoice)));
                  bestMatch = foldl (\<lambda>best po.
                                case poCandidate invoiceSKUs (length vendorPOs) po of
                                  None \<Rightarrow> best
                                | Some cand \<Rightarrow>
                                    (case best of
                                       None \<Rightarrow> Some cand
                                     | Some b \<Rightarrow> if pm_confidence cand > pm_confidence b
                                                 then Some cand else best))
                              None vendorPOs
              in case bestMatch of
                   Some b \<Rightarrow> Some b
                 | None \<Rightarrow> if length vendorPOs = 1
                           then Some \<lparr> pm_poNumber = po_poNumber (hd vendorPOs), pm_confidence = 0.6 \<rparr>
                           else None)"

fun showNat :: "nat \<Rightarrow> string" where
  "showNat n = (if n < 10 then [''0123456789'' ! n]
                else showNat (n div 10) @ [''0123456789'' ! (n mod 10)])"

declare showNat.simps [simp del]

definition lineItemSkuField :: "nat \<Rightarrow> string" where
  "lineItemSkuField i = ''lineItems['' @ showNat i @ ''].sku''"

type_synonym apply_state = "NormalizedInvoice \<times> ProposedCorrection list"

definition applyServiceDate :: "Extractors \<Rightarrow> Invoice \<Rightarrow> VendorMemory \<Rightarrow> apply_state \<Rightarrow> apply_state" where
  "applyServiceDate X invoice vm s =
     (let (normalized, corrections) = s
      in if absent (n_serviceDate normalized)
         then (case find (\<lambda>m. fm_targetField m = ''serviceDate'') (vm_fieldMappings vm) of
                 None \<Rightarrow> s
               | Some serviceDateMapping \<Rightarrow>
                   (case extractFromRawText X (rawText invoice) (fm_sourceLabel serviceDateMapping) of
                      None \<Rightarrow> s
                    | Some extractedDate \<Rightarrow>
                        if extractedDate = [] then s
                        else let correction =
                                   \<lparr> pc_field = ''serviceDate'', pc_originalValue = JNull,
                                     pc_proposedValue = JStr extractedDate,
                                     pc_confidence = fm_confidence serviceDateMapping,
                                     pc_autoApplied =
                                       (fm_confidence serviceDateMapping \<ge> AUTO_APPLY_THRESHOLD) \<rparr>
                             in ((if pc_autoApplied correction
                                  then normalized\<lparr> n_serviceDate := Some extractedDate \<rparr>
                                  else normalized),
                                 corrections @ [correction])))
         else s)"

definition vatInclusiveIndicators :: "string list" where
  "vatInclusiveIndicators = [''inkl.'', ''incl.'', ''included'', ''inclusive'', ''mwst. inkl'']"

definition applyTaxBehavior :: "Extractors \<Rightarrow> Invoice \<Rightarrow> VendorMemory \<Rightarrow> apply_state \<Rightarrow> apply_state" where
  "applyTaxBehavior X invoice vm s =
     (let (normalized, corrections) = s
      in case vm_taxBehavior vm of
           None \<Rightarrow> s
         | Some taxBehavior \<Rightarrow>
             if tb_isInclusive taxBehavior
                \<and> list_ex (\<lambda>ind. strIncludes (toLowerCase (rawText invoice)) (toLowerCase ind))
                           vatInclusiveIndicators
             then (case recalculateGrossFromRawText X (rawText invoice) (n_grossTotal normalized) of
                     None \<Rightarrow> s
                   | Some recalculatedGross \<Rightarrow>
                       if recalculatedGross \<noteq> 0 \<and> recalculatedGross \<noteq> n_grossTotal normalized
                       then let recalculatedTax = recalculatedGross - n_netTotal normalized;
                                correction =
                                  \<lparr> pc_field = ''grossTotal'',
                                    pc_originalValue = JNum (n_grossTotal normalized),
                                    pc_proposedValue = JNum recalculatedGross,
                                    pc_confidence = tb_confidence taxBehavior,
                                    pc_autoApplied = (tb_confidence taxBehavior \<ge> AUTO_APPLY_THRESHOLD) \<rparr>;
                                taxCorrection =
                                  \<lparr> pc_field = ''taxTotal'',
                                    pc_originalValue = JNum (n_taxTotal normalized),
                                    pc_proposedValue = JNum recalculatedTax,
                                    pc_confidence = tb_confidence taxBehavior,
                                    pc_autoApplied = (tb_confidence taxBehavior \<ge> AUTO_APPLY_THRESHOLD) \<rparr>
                            in ((if pc_autoApplied correction
                                 then normalized\<lparr> n_grossTotal := recalculatedGross,
                                                  n_taxTotal := recalculatedTax \<rparr>
                                 else normalized),
                                corrections @ [correction, taxCorrection])
                       else s)
             else s)"

definition applyCurrency :: "Invoice \<Rightarrow> VendorMemory \<Rightarrow> apply_state \<Rightarrow> apply_state" where
  "applyCurrency invoice vm s =
     (let (normalized, corrections) = s
      in if absent (currency (inv_fields invoice))
         then (if \<not> absent (vm_defaultCurrency vm)
               then (normalized,
                     corrections @ [\<lparr> pc_field = ''currency'', pc_originalValue = JNull,
                                       pc_proposedValue = JStr (the (vm_defaultCurrency vm)),
                                       pc_confidence = 0.75, pc_autoApplied = False \<rparr>])
               else (case extractCurrencyFromRawText (rawText invoice) of
                       None \<Rightarrow> s
                     | Some extractedCurrency \<Rightarrow>
                         if extractedCurrency = [] then s
                         else (normalized\<lparr> n_currency := extractedCurrency \<rparr>,
                               corrections @ [\<lparr> pc_field = ''currency'', pc_originalValue = JNull,
                                                 pc_proposedValue = JStr extractedCurrency,
                                                 pc_confidence = 0.7, pc_autoApplied = False \<rparr>])))
         else s)"

definition applySkuAt :: "VendorMemory \<Rightarrow> apply_state \<Rightarrow> nat \<Rightarrow> apply_state" where
  "applySkuAt vm s i =
     (let (normalized, corrections) = s;
          item = n_lineItems normalized ! i
      in if nl_sku item = [] \<or> nl_sku item = ''UNKNOWN''
         then (case find (\<lambda>m. strIncludes (toLowerCase (nl_description item)) (toLowerCase (sm_description m))
                               \<or> strIncludes (toLowerCase (sm_description m)) (toLowerCase (nl_description item)))
                         (vm_skuMappings vm) of
                 None \<Rightarrow> s
               | Some skuMapping \<Rightarrow>
                   let correction =
                         \<lparr> pc_field = lineItemSkuField i, pc_originalValue = orNull (nl_sku item),
                           pc_proposedValue = JStr (sm_sku skuMapping),
                           pc_confidence = sm_confidence skuMapping,
                           pc_autoApplied = (sm_confidence skuMapping \<ge> AUTO_APPLY_THRESHOLD) \<rparr>
                   in ((if pc_autoApplied correction
                        then normalized\<lparr> n_lineItems :=
                               (n_lineItems normalized)[i := item\<lparr> nl_sku := sm_sku skuMapping \<rparr>] \<rparr>
                        else normalized),
                       corrections @ [correction]))
         else s)"

definition applySkuMappings :: "VendorMemory \<Rightarrow> apply_state \<Rightarrow> apply_state" where
  "applySkuMappings vm s = foldl (applySkuAt vm) s [0 ..< length (n_lineItems (fst s))]"

definition applyPaymentTerms :: "VendorMemory \<Rightarrow> apply_state \<Rightarrow> apply_state" where
  "applyPaymentTerms vm s =
     (let (normalized, corrections) = s
      in if \<not> absent (vm_paymentTerms vm) \<and> absent (n_discountTerms normalized)
         then (normalized\<lparr> n_discountTerms := vm_paymentTerms vm \<rparr>, corrections)
         else s)"

definition applyExtractedTerms :: "Extractors \<Rightarrow> Invoice \<Rightarrow> apply_state \<Rightarrow> apply_state" where
  "applyExtractedTerms X invoice s =
     (let (normalized, corrections) = s
      in if absent (n_discountTerms normalized)
         then (case extractPaymentTerms X (rawText invoice) of
                 None \<Rightarrow> s
               | Some extractedTerms \<Rightarrow>
                   if extractedTerms = [] then s
                   else (normalized\<lparr> n_discountTerms := Some extractedTerms \<rparr>,
                         corrections @ [\<lparr> pc_field = ''discountTerms'', pc_originalValue = JNull,
                                           pc_proposedValue = JStr extractedTerms,
                                           pc_confidence = 0.8, pc_autoApplied = False \<rparr>]))
         else s)"

definition applyPurchaseOrder :: "Invoice \<Rightarrow> PurchaseOrder list option \<Rightarrow> apply_state \<Rightarrow> apply_state" where
  "applyPurchaseOrder invoice purchaseOrders s =
     (let (normalized, corrections) = s
      in case purchaseOrders of
           None \<Rightarrow> s
         | Some pos \<Rightarrow>
             if absent (n_poNumber normalized) \<and> length pos > 0
             then (case matchPurchaseOrder invoice pos of
                     None \<Rightarrow> s
                   | Some matchedPO \<Rightarrow>
                       let correction =
                             \<lparr> pc_field = ''poNumber'', pc_originalValue = JNull,
                               pc_proposedValue = JStr (pm_poNumber matchedPO),
                               pc_confidence = pm_confidence matchedPO,
                               pc_autoApplied = (pm_confidence matchedPO \<ge> AUTO_APPLY_THRESHOLD) \<rparr>
                       in ((if pc_autoApplied correction
                            then normalized\<lparr> n_poNumber := Some (pm_poNumber matchedPO) \<rparr>
                            else normalized),
                           corrections @ [correction]))
             else s)"

definition applyVendorMemory :: "Extractors \<Rightarrow> Invoice \<Rightarrow> VendorMemory \<Rightarrow> apply_state \<Rightarrow> apply_state" where
  "applyVendorMemory X invoice vm s =
     applyPaymentTerms vm
       (applySkuMappings vm
         (applyCurrency invoice vm
           (applyTaxBehavior X invoice vm
             (applyServiceDate X invoice vm s))))"

definition applyMemories ::
  "Extractors \<Rightarrow> Invoice \<Rightarrow> RecalledMemories \<Rightarrow> PurchaseOrder list option \<Rightarrow> ApplyResult" where
  "applyMemories X invoice memories purchaseOrders =
     (let s0 = (initialNormalized invoice, []);
          s5 = (case vendorMemory memories of
                  Some vm \<Rightarrow> applyVendorMemory X invoice vm s0
                | None \<Rightarrow> s0);
          s6 = applyExtractedTerms X invoice s5;
          s7 = applyPurchaseOrder invoice purchaseOrders s6
      in \<lparr> ar_normalizedInvoice = fst s7, ar_proposedCorrections = snd s7 \<rparr>)"

section \<open>Learn (services/learn.ts)\<close>

record FieldCorrection =
  fc_field :: string
  fc_from :: jsvalue
  fc_to :: jsvalue
  fc_reason :: string

record HumanCorrection =
  hc_invoiceId :: string
  hc_vendor :: string
  hc_corrections :: "FieldCorrection list"
  hc_finalDecision :: decision

datatype update_type = type_vendor | type_correction | type_resolution

datatype update_action = create | reinforce | weaken

text \<open>
  The \<open>details\<close> text of a memory update and the entries of the Learn audit note are
  template strings; each template is one constructor, carrying what it interpolates.
\<close>

datatype update_note =
    NoteCreatedVendorMemory string
  | NoteFieldMapping bool
  | NoteExtractPattern
  | NoteVatBehavior bool
  | NoteTaxPattern
  | NoteDefaultCurrency jsvalue
  | NotePoPattern string
  | NoteSkuMapping bool string jsvalue
  | NotePaymentTerms jsvalue
  | NoteReinforced string
  | NoteWeakened string

record MemoryUpdate =
  mu_type :: update_type
  mu_action :: update_action
  mu_details :: update_note
  mu_memoryId :: "nat option"

datatype learn_detail =
    CreatedVendorMemory string
  | LearnedServiceDateLabel string
  | LearnedVatInclusive string
  | LearnedDefaultCurrency string jsvalue
  | LearnedPoStrategy string
  | LearnedSku string jsvalue string
  | LearnedPaymentTerms string jsvalue
  | RecordedInvoice string

type_synonym learn_state = "Store \<times> MemoryUpdate list \<times> learn_detail list"

text \<open>\<open>to as string\<close>: the cast asserts a string; other values are read as the empty string.\<close>

definition asString :: "jsvalue \<Rightarrow> string" where
  "asString v = (case v of JStr s \<Rightarrow> s | _ \<Rightarrow> [])"

text \<open>\<open>field.match(/lineItems\[(\d+)\]/)\<close>: the index of the leftmost match.\<close>

definition matchLineItemsAt :: "string \<Rightarrow> nat option" where
  "matchLineItemsAt s =
     (if startsWith s ''lineItems[''
      then let rest = drop 10 s;
               ds = takeWhile isDigit rest;
               after = dropWhile isDigit rest
           in if ds \<noteq> [] \<and> take 1 after = '']'' then Some (parseInt ds) else None
      else None)"

fun matchLineItems :: "string \<Rightarrow> nat option" where
  "matchLineItems [] = None"
| "matchLineItems (c # cs) =
     (case matchLineItemsAt (c # cs) of
        Some i \<Rightarrow> Some i
      | None \<Rightarrow> matchLineItems cs)"

definition isApproved :: "decision \<Rightarrow> bool" where
  "isApproved d = (d = approved)"

definition reinforceOrWeaken :: "decision \<Rightarrow> update_action" where
  "reinforceOrWeaken d = (if isApproved d then reinforce else weaken)"

definition learnServiceDate :: "string \<Rightarrow> FieldCorrection \<Rightarrow> decision \<Rightarrow> learn_state \<Rightarrow> learn_state" where
  "learnServiceDate vendorName correction d s =
     (let (st, updates, details) = s
      in if fc_field correction = ''serviceDate''
            \<and> strIncludes (toLowerCase (fc_reason correction)) ''leistungsdatum''
         then let st1 = updateFieldMapping st vendorName ''Leistungsdatum'' ''serviceDate'' (isApproved d);
                  (st2, corrMem) = recordCorrection st1 vendorName ''serviceDate'' ''Leistungsdatum''
                                     extract_from_rawtext (fc_to correction)
              in (st2,
                  updates @ [\<lparr> mu_type = type_vendor, mu_action = reinforceOrWeaken d,
                                 mu_details = NoteFieldMapping (isApproved d), mu_memoryId = None \<rparr>,
                             \<lparr> mu_type = type_correction, mu_action = create,
                                 mu_details = NoteExtractPattern, mu_memoryId = Some (cm_id corrMem) \<rparr>],
                  details @ [LearnedServiceDateLabel vendorName])
         else s)"

definition learnTax :: "Invoice \<Rightarrow> string \<Rightarrow> FieldCorrection \<Rightarrow> decision \<Rightarrow> learn_state \<Rightarrow> learn_state" where
  "learnTax invoice vendorName correction d s =
     (let (st, updates, details) = s
      in if (fc_field correction = ''taxTotal'' \<or> fc_field correction = ''grossTotal'')
            \<and> (strIncludes (toLowerCase (fc_reason correction)) ''vat''
                \<or> strIncludes (toLowerCase (fc_reason correction)) ''mwst''
                \<or> strIncludes (toLowerCase (fc_reason correction)) ''recalculated'')
         then let st1 = updateTaxBehavior st vendorName True (taxRate (inv_fields invoice)) (isApproved d);
                  (st2, corrMem) = recordCorrection st1 vendorName (fc_field correction) ''vat_inclusive''
                                     recalculate_tax (JFromTo (fc_from correction) (fc_to correction))
              in (st2,
                  updates @ [\<lparr> mu_type = type_vendor, mu_action = reinforceOrWeaken d,
                                 mu_details = NoteVatBehavior (isApproved d), mu_memoryId = None \<rparr>,
                             \<lparr> mu_type = type_correction, mu_action = create,
                                 mu_details = NoteTaxPattern, mu_memoryId = None \<rparr>],
                  details @ [LearnedVatInclusive vendorName])
         else s)"

definition learnCurrency :: "string \<Rightarrow> FieldCorrection \<Rightarrow> learn_state \<Rightarrow> learn_state" where
  "learnCurrency vendorName correction s =
     (let (st, updates, details) = s
      in if fc_field correction = ''currency''
         then let st1 = updateDefaultCurrency st vendorName (asString (fc_to correction));
                  (st2, corrMem) = recordCorrection st1 vendorName ''currency'' ''missing_currency''
                                     set_currency (fc_to correction)
              in (st2,
                  updates @ [\<lparr> mu_type = type_vendor, mu_action = reinforce,
                                 mu_details = NoteDefaultCurrency (fc_to correction), mu_memoryId = None \<rparr>],
                  details @ [LearnedDefaultCurrency vendorName (fc_to correction)])
         else s)"

definition learnPoNumber :: "string \<Rightarrow> FieldCorrection \<Rightarrow> learn_state \<Rightarrow> learn_state" where
  "learnPoNumber vendorName correction s =
     (let (st, updates, details) = s
      in if fc_field correction = ''poNumber''
         then let (st1, corrMem) = recordCorrection st vendorName ''poNumber'' (fc_reason correction)
                                     match_po (fc_to correction)
              in (st1,
                  updates @ [\<lparr> mu_type = type_correction, mu_action = create,
                                 mu_details = NotePoPattern (fc_reason correction), mu_memoryId = None \<rparr>],
                  details @ [LearnedPoStrategy vendorName])
         else s)"

definition learnSku :: "Invoice \<Rightarrow> string \<Rightarrow> FieldCorrection \<Rightarrow> decision \<Rightarrow> learn_state \<Rightarrow> learn_state" where
  "learnSku invoice vendorName correction d s =
     (let (st, updates, details) = s
      in if strIncludes (fc_field correction) ''sku'' \<and> strIncludes (fc_field correction) ''lineItems''
         then (case matchLineItems (fc_field correction) of
                 None \<Rightarrow> s
               | Some index \<Rightarrow>
                   if index < length (lineItems (inv_fields invoice))
                      \<and> \<not> absent (li_description (lineItems (inv_fields invoice) ! index))
                   then let description = the (li_description (lineItems (inv_fields invoice) ! index));
                            st1 = updateSkuMapping st vendorName description
                                    (asString (fc_to correction)) (isApproved d)
                        in (st1,
                            updates @ [\<lparr> mu_type = type_vendor, mu_action = reinforceOrWeaken d,
                                           mu_details = NoteSkuMapping (isApproved d) description
                                                          (fc_to correction),
                                           mu_memoryId = None \<rparr>],
                            details @ [LearnedSku description (fc_to correction) vendorName])
                   else s)
         else s)"

definition learnPaymentTerms :: "string \<Rightarrow> FieldCorrection \<Rightarrow> learn_state \<Rightarrow> learn_state" where
  "learnPaymentTerms vendorName correction s =
     (let (st, updates, details) = s
      in if fc_field correction = ''discountTerms''
         then let st1 = updatePaymentTerms st vendorName (asString (fc_to correction));
                  (st2, corrMem) = recordCorrection st1 vendorName ''discountTerms'' ''skonto''
                                     set_payment_terms (fc_to correction)
              in (st2,
                  updates @ [\<lparr> mu_type = type_vendor, mu_action = reinforce,
                                 mu_details = NotePaymentTerms (fc_to correction), mu_memoryId = None \<rparr>],
                  details @ [LearnedPaymentTerms vendorName (fc_to correction)])
         else s)"

definition reinforceOrWeakenExisting ::
  "string \<Rightarrow> FieldCorrection \<Rightarrow> decision \<Rightarrow> learn_state \<Rightarrow> learn_state" where
  "reinforceOrWeakenExisting vendorName correction d s =
     (let (st, updates, details) = s
      in case findMatchingCorrection st vendorName (fc_field correction) None of
           None \<Rightarrow> s
         | Some existingCorrection \<Rightarrow>
             if isApproved d
             then (reinforceCorrection st (cm_id existingCorrection),
                   updates @ [\<lparr> mu_type = type_correction, mu_action = reinforce,
                                  mu_details = NoteReinforced (fc_field correction),
                                  mu_memoryId = Some (cm_id existingCorrection) \<rparr>],
                   details)
             else (weakenCorrection st (cm_id existingCorrection),
                   updates @ [\<lparr> mu_type = type_correction, mu_action = weaken,
                                  mu_details = NoteWeakened (fc_field correction),
                                  mu_memoryId = Some (cm_id existingCorrection) \<rparr>],
                   details))"

text \<open>
  \<open>processCorrection\<close> returns its own \<open>updates\<close> and \<open>details\<close>, which \<open>learn\<close>
  appends to its lists; here the rules append to the lists of \<open>learn\<close> directly.
\<close>

definition processCorrection ::
  "Invoice \<Rightarrow> string \<Rightarrow> decision \<Rightarrow> learn_state \<Rightarrow> FieldCorrection \<Rightarrow> learn_state" where
  "processCorrection invoice vendorName d s correction =
     reinforceOrWeakenExisting vendorName correction d
       (learnPaymentTerms vendorName correction
         (learnSku invoice vendorName correction d
           (learnPoNumber vendorName correction
             (learnCurrency vendorName correction
               (learnTax invoice vendorName correction d
                 (learnServiceDate vendorName correction d s))))))"

definition ensureVendorMemory :: "Store \<Rightarrow> string \<Rightarrow> learn_state" where
  "ensureVendorMemory st vendorName =
     (case getVendorMemory st vendorName of
        Some vm \<Rightarrow> (st, [], [])
      | None \<Rightarrow>
          let (st1, vm) = createVendorMemory st vendorName
          in (st1,
              [\<lparr> mu_type = type_vendor, mu_action = create,
                  mu_details = NoteCreatedVendorMemory vendorName, mu_memoryId = Some (vm_id vm) \<rparr>],
              [CreatedVendorMemory vendorName]))"

definition recordResolutions :: "Invoice \<Rightarrow> HumanCorrection \<Rightarrow> Store \<Rightarrow> Store" where
  "recordResolutions invoice humanCorrection st =
     foldl (\<lambda>st' correction.
              recordResolution st' (invoiceId invoice) (vendor invoice) (fc_field correction)
                (fc_from correction) (fc_to correction) (hc_finalDecision humanCorrection)
                (fc_reason correction))
           st (hc_corrections humanCorrection)"

record LearnResult =
  lr_store :: Store
  lr_memoryUpdates :: "MemoryUpdate list"
  lr_auditDetails :: "learn_detail list"

definition learn ::
  "(string \<Rightarrow> string) \<Rightarrow> (real \<Rightarrow> string) \<Rightarrow> nat \<Rightarrow> Store \<Rightarrow> Invoice \<Rightarrow> HumanCorrection \<Rightarrow> LearnResult" where
  "learn md5 numberToString now st invoice humanCorrection =
     (let vendorName = vendor invoice;
          s1 = ensureVendorMemory st vendorName;
          (st2, memoryUpdates, details) =
             foldl (processCorrection invoice vendorName (hc_finalDecision humanCorrection)) s1
                   (hc_corrections humanCorrection);
          st3 = recordResolutions invoice humanCorrection st2;
          st4 = recordProcessedInvoice md5 numberToString now st3 invoice
      in \<lparr> lr_store = st4, lr_memoryUpdates = memoryUpdates,
           lr_auditDetails = details @ [RecordedInvoice (invoiceId invoice)] \<rparr>)"

section \<open>Example values\<close>

definition ex_normalized :: NormalizedInvoice where
  "ex_normalized = \<lparr> n_invoiceId = ''INV-A-001'', n_vendor = ''Supplier GmbH'',
     n_invoiceNumber = ''INV-2024-001'', n_invoiceDate = ''12.01.2024'', n_serviceDate = None,
     n_currency = ''EUR'', n_poNumber = None, n_netTotal = 2500, n_taxRate = 0.19,
     n_taxTotal = 475, n_grossTotal = 2975, n_lineItems = [], n_discountTerms = None \<rparr>"

definition ex_no_memories :: RecalledMemories where
  "ex_no_memories = \<lparr> vendorMemory = None, correctionMemories = [], resolutionMemories = [],
     potentialDuplicate = None \<rparr>"

definition ex_ops :: "correction_op list" where
  "ex_ops = [OpRecord ''Parts AG'' ''currency'' ''missing_currency'' set_currency (JStr ''EUR''),
             OpWeaken 0]"

definition ex_correction_row :: "real \<Rightarrow> nat \<Rightarrow> nat \<Rightarrow> CorrectionMemory" where
  "ex_correction_row c s f =
     \<lparr> cm_id = 0, cm_vendorName = ''Parts AG'', cm_fieldName = ''currency'',
       cm_pattern = ''missing_currency'', cm_correctionType = set_currency,
       cm_correctionValue = JStr ''EUR'', cm_confidence = c,
       cm_successCount = s, cm_failureCount = f \<rparr>"

definition ex_vendor_row :: "nat \<Rightarrow> string option \<Rightarrow> VendorMemory" where
  "ex_vendor_row usage cur =
     \<lparr> vm_id = 0, vm_vendorName = ''Supplier GmbH'',
       vm_fieldMappings = [\<lparr> fm_sourceLabel = ''Leistungsdatum'', fm_targetField = ''serviceDate'',
                              fm_confidence = 0.6, fm_successCount = 1, fm_failureCount = 0 \<rparr>],
       vm_taxBehavior = None, vm_defaultCurrency = cur, vm_skuMappings = [],
       vm_paymentTerms = None, vm_confidence = 0.384, vm_usageCount = usage \<rparr>"

definition ex_vendor_store :: Store where
  "ex_vendor_store =
     updateFieldMapping emptyStore ''Supplier GmbH'' ''Leistungsdatum'' ''serviceDate'' True"

section \<open>Invariants\<close>

text \<open>
  What every row of the correction table satisfies: a row whose counters are still the
  initial (1, 0) holds the initial confidence 0.6, any other row holds the recomputed value.
\<close>

definition storedConfidenceRule :: "CorrectionMemory \<Rightarrow> bool" where
  "storedConfidenceRule c =
     (cm_confidence c =
        (if cm_successCount c = 1 \<and> cm_failureCount c = 0 then 0.6
         else spec_correctionConfidence (cm_successCount c) (cm_failureCount c)))"

definition correctionTableInv :: "Store \<Rightarrow> bool" where
  "correctionTableInv st =
     (distinct (map cm_id (correction_memories st))
      \<and> list_all (\<lambda>c. cm_id c < nextId st \<and> 1 \<le> cm_successCount c \<and> storedConfidenceRule c)
                  (correction_memories st))"

section \<open>Reading a field of the normalized invoice\<close>

text \<open>
  The value the normalized invoice holds under the field name a proposed correction
  carries: one of the six scalar fields, or the SKU of the line item that
  \<open>lineItems[i].sku\<close> names.
\<close>

definition optValue :: "string option \<Rightarrow> jsvalue" where
  "optValue x = (case x of None \<Rightarrow> JNull | Some s \<Rightarrow> JStr s)"

definition readField :: "NormalizedInvoice \<Rightarrow> string \<Rightarrow> jsvalue option" where
  "readField n f =
     (if f = ''serviceDate'' then Some (optValue (n_serviceDate n))
      else if f = ''currency'' then Some (JStr (n_currency n))
      else if f = ''poNumber'' then Some (optValue (n_poNumber n))
      else if f = ''taxTotal'' then Some (JNum (n_taxTotal n))
      else if f = ''grossTotal'' then Some (JNum (n_grossTotal n))
      else if f = ''discountTerms'' then Some (optValue (n_discountTerms n))
      else (case matchLineItems f of
              Some i \<Rightarrow>
                if f = lineItemSkuField i \<and> i < length (n_lineItems n)
                then Some (JStr (nl_sku (n_lineItems n ! i))) else None
            | None \<Rightarrow> None))"

section \<open>Apply: what a proposed correction says about the normalized invoice\<close>

definition soundAt :: "ProposedCorrection \<Rightarrow> jsvalue option \<Rightarrow> jsvalue option \<Rightarrow> bool" where
  "soundAt c v v0 =
     (pc_autoApplied c = (pc_confidence c \<ge> AUTO_APPLY_THRESHOLD)
      \<and> (if pc_autoApplied c then v = Some (pc_proposedValue c)
         else if pc_field c = ''discountTerms'' then v = Some (pc_proposedValue c)
         else if pc_field c = ''currency'' \<and> pc_confidence c = 0.7
              then v = Some (pc_proposedValue c)
         else v = v0))"

definition correctionSound :: "NormalizedInvoice \<Rightarrow> NormalizedInvoice \<Rightarrow> ProposedCorrection \<Rightarrow> bool" where
  "correctionSound n0 n c = soundAt c (readField n (pc_field c)) (readField n0 (pc_field c))"

definition applyInv :: "string set \<Rightarrow> NormalizedInvoice \<Rightarrow> apply_state \<Rightarrow> bool" where
  "applyInv F n0 s =
     (length (n_lineItems (fst s)) = length (n_lineItems n0)
      \<and> (\<forall>f. f \<notin> F \<longrightarrow> readField (fst s) f = readField n0 f)
      \<and> (\<forall>c \<in> set (snd s). pc_field c \<in> F \<and> correctionSound n0 (fst s) c))"


definition ex_extractors :: Extractors where
  "ex_extractors = \<lparr> extractFromRawText = (\<lambda>text label. None),
                      recalculateGrossFromRawText = (\<lambda>text gross. None),
                      extractPaymentTerms = (\<lambda>text. None) \<rparr>"

definition ex_invoice :: Invoice where
  "ex_invoice =
     \<lparr> invoiceId = ''INV-B-003'', vendor = ''Parts AG'',
       inv_fields = \<lparr> invoiceNumber = ''PA-7810'', invoiceDate = ''2024-03-01'',
                      serviceDate = None, currency = None, poNumber = Some ''PO-B-110'',
                      netTotal = 1000, taxRate = 0.19, taxTotal = 190, grossTotal = 1190,
                      lineItems = [\<lparr> li_sku = None, li_description = Some ''Seefracht Shipping'',
                                     li_qty = 1, li_unitPrice = 1000 \<rparr>],
                      discountTerms = Some ''2% Skonto'' \<rparr>,
       confidence = 0.8, rawText = ''Total 1190 Currency: USD'' \<rparr>"

definition ex_vendor_memory :: VendorMemory where
  "ex_vendor_memory =
     \<lparr> vm_id = 0, vm_vendorName = ''Parts AG'', vm_fieldMappings = [], vm_taxBehavior = None,
       vm_defaultCurrency = None,
       vm_skuMappings = [\<lparr> sm_description = ''seefracht'', sm_sku = ''FREIGHT'',
                            sm_confidence = 0.9, sm_usageCount = 3 \<rparr>],
       vm_paymentTerms = None, vm_confidence = 0.5, vm_usageCount = 3 \<rparr>"

definition ex_memories :: RecalledMemories where
  "ex_memories = \<lparr> vendorMemory = Some ex_vendor_memory, correctionMemories = [],
                    resolutionMemories = [], potentialDuplicate = None \<rparr>"

definition ex_currency_correction :: ProposedCorrection where
  "ex_currency_correction =
     \<lparr> pc_field = ''currency'', pc_originalValue = JNull, pc_proposedValue = JStr ''USD'',
       pc_confidence = 0.7, pc_autoApplied = False \<rparr>"

definition ex_sku_correction :: ProposedCorrection where
  "ex_sku_correction =
     \<lparr> pc_field = ''lineItems[0].sku'', pc_originalValue = JStr ''UNKNOWN'',
       pc_proposedValue = JStr ''FREIGHT'', pc_confidence = 0.9, pc_autoApplied = True \<rparr>"

definition ex_initial :: NormalizedInvoice where
  "ex_initial =
     \<lparr> n_invoiceId = ''INV-B-003'', n_vendor = ''Parts AG'', n_invoiceNumber = ''PA-7810'',
       n_invoiceDate = ''2024-03-01'', n_serviceDate = None, n_currency = ''EUR'',
       n_poNumber = Some ''PO-B-110'', n_netTotal = 1000, n_taxRate = 0.19, n_taxTotal = 190,
       n_grossTotal = 1190,
       n_lineItems = [\<lparr> nl_sku = ''UNKNOWN'', nl_description = ''Seefracht Shipping'',
                         nl_qty = 1, nl_unitPrice = 1000, nl_amount = 1000 \<rparr>],
       n_discountTerms = Some ''2% Skonto'' \<rparr>"

definition ex_final :: NormalizedInvoice where
  "ex_final =
     ex_initial\<lparr> n_currency := ''USD'',
                 n_lineItems := [\<lparr> nl_sku = ''FREIGHT'', nl_description = ''Seefracht Shipping'',
                                   nl_qty = 1, nl_unitPrice = 1000, nl_amount = 1000 \<rparr>] \<rparr>"

section \<open>Duplicate detection: elapsed days between two invoice dates\<close>


definition ex_md5 :: "string \<Rightarrow> string" where
  "ex_md5 s = s"

definition ex_numberToString :: "real \<Rightarrow> string" where
  "ex_numberToString x = showNat (nat \<lfloor>x\<rfloor>)"


section \<open>Learn: corrections that no update rule applies to\<close>

text \<open>
  The six field names with a rule of their own, the condition under which the SKU rule
  updates a mapping (the field names a line item that exists and has a description), and
  a correction to which neither applies: an unknown field name or a line-item index out of
  range.
\<close>

definition ruleFields :: "string list" where
  "ruleFields = [''serviceDate'', ''taxTotal'', ''grossTotal'', ''currency'', ''poNumber'', ''discountTerms'']"

definition skuRuleApplies :: "Invoice \<Rightarrow> FieldCorrection \<Rightarrow> bool" where
  "skuRuleApplies invoice c =
     (strIncludes (fc_field c) ''sku'' \<and> strIncludes (fc_field c) ''lineItems''
      \<and> (case matchLineItems (fc_field c) of
            None \<Rightarrow> False
          | Some index \<Rightarrow> index < length (lineItems (inv_fields invoice))
                          \<and> \<not> absent (li_description (lineItems (inv_fields invoice) ! index))))"

definition noRuleApplies :: "Invoice \<Rightarrow> FieldCorrection \<Rightarrow> bool" where
  "noRuleApplies invoice c = (fc_field c \<notin> set ruleFields \<and> \<not> skuRuleApplies invoice c)"

definition noMemoryForField :: "Store \<Rightarrow> string \<Rightarrow> bool" where
  "noMemoryForField st f = list_all (\<lambda>r. cm_fieldName r \<noteq> f) (correction_memories st)"

definition ex_bad_correction :: FieldCorrection where
  "ex_bad_correction = \<lparr> fc_field = ''lineItems[5].sku'', fc_from = JNull, fc_to = JStr ''FREIGHT'',
                          fc_reason = ''SKU mapped from description'' \<rparr>"

definition ex_sku_fix :: FieldCorrection where
  "ex_sku_fix = \<lparr> fc_field = ''lineItems[0].sku'', fc_from = JNull, fc_to = JStr ''FREIGHT'',
                   fc_reason = ''SKU mapped from description'' \<rparr>"

definition ex_batch :: "FieldCorrection list \<Rightarrow> HumanCorrection" where
  "ex_batch cs = \<lparr> hc_invoiceId = ''INV-B-003'', hc_vendor = ''Parts AG'', hc_corrections = cs,
                    hc_finalDecision = approved \<rparr>"

section \<open>Learn: the currency correction memories of a vendor\<close>







section \<open>Verified properties\<close>

subsection \<open>Decide\<close>

lemma foldl_add_conf:
  "foldl (\<lambda>sum c. sum + pc_confidence c) a xs = a + sum_list (map pc_confidence xs)"
  by (induction xs arbitrary: a) auto

lemma spec_clamp_eq: "spec_clamp 0.1 1.0 x = max 0.1 (min 1.0 x)"
  by (simp add: spec_clamp_def)

lemma step_boost:
  "(case vendorMemory m of None \<Rightarrow> s | Some vm \<Rightarrow> min 1.0 (s + vm_confidence vm * 0.1))
     = spec_boostVendor m s"
  by (cases "vendorMemory m") (simp_all add: spec_boostVendor_def mult.commute)

lemma step_average:
  "(if length (filter pc_autoApplied cs) > 0
    then (s + foldl (\<lambda>sum c. sum + pc_confidence c) 0 (filter pc_autoApplied cs)
                / real (length (filter pc_autoApplied cs))) / 2
    else s) = spec_averageAutoApplied cs s"
  by (simp add: spec_averageAutoApplied_def foldl_add_conf filter_empty_conv)

lemma step_pending:
  "(if length (filter (\<lambda>c. \<not> pc_autoApplied c) cs) > 0 then s * 0.9 else s)
     = spec_penalisePending cs s"
  by (simp add: spec_penalisePending_def filter_empty_conv)

lemma step_duplicate:
  "(if potentialDuplicate m \<noteq> None then s * 0.5 else s) = spec_penaliseDuplicate m s"
  by (simp add: spec_penaliseDuplicate_def)

lemma step_newVendor:
  "(if (case vendorMemory m of None \<Rightarrow> True | Some vm \<Rightarrow> vm_usageCount vm < 2)
    then s * 0.8 else s) = spec_penaliseNewVendor m s"
  by (cases "vendorMemory m") (simp_all add: spec_penaliseNewVendor_def)

lemma calculateOverallConfidence_spec:
  "calculateOverallConfidence b m cs = spec_overallConfidence b m cs"
  unfolding calculateOverallConfidence_def spec_overallConfidence_def Let_def
    step_boost step_average step_pending step_duplicate step_newVendor spec_clamp_eq ..

lemma makeDecision_score:
  "confidenceScore (makeDecision n cs m b) = calculateOverallConfidence b m cs"
  by (simp add: makeDecision_def Let_def split: prod.splits)

text \<open>
  C1. Whenever the recalled memories hold no vendor memory, or one whose usage count is
  below 2, \<open>makeDecision\<close> answers \<open>requiresHumanReview = true\<close>, whatever the
  normalized invoice, the proposed corrections and the base confidence are.
\<close>

theorem makeDecision_new_vendor_requires_review:
  assumes "vendorMemory memories = None
           \<or> (\<exists>vm. vendorMemory memories = Some vm \<and> vm_usageCount vm < 2)"
  shows "requiresHumanReview
           (makeDecision normalizedInvoice proposedCorrections memories originalConfidence) = True"
  using assms
  by (auto simp: makeDecision_def Let_def split: option.splits prod.splits if_splits)

theorem makeDecision_new_vendor_requires_review_witness:
  "vendorMemory ex_no_memories = None
   \<and> requiresHumanReview (makeDecision ex_normalized [] ex_no_memories 1) = True"
  using makeDecision_new_vendor_requires_review[of ex_no_memories ex_normalized "[]" 1]
  by (simp add: ex_no_memories_def)

text \<open>
  C4. The confidence score returned by \<open>makeDecision\<close> is the specification's computation:
  base confidence, vendor boost capped at 1, averaging with the mean confidence of the
  auto-applied corrections, the factors 0.9 (a pending correction), 0.5 (a duplicate) and
  0.8 (new or low-history vendor), in this order, then the clamp to [0.1, 1].
\<close>

theorem makeDecision_confidence_score:
  "confidenceScore (makeDecision normalizedInvoice proposedCorrections memories baseConfidence)
     = spec_overallConfidence baseConfidence memories proposedCorrections"
  by (simp only: makeDecision_score calculateOverallConfidence_spec)

theorem makeDecision_confidence_score_witness:
  "confidenceScore (makeDecision ex_normalized [] ex_no_memories 1) = 0.8"
  using makeDecision_confidence_score[of ex_normalized "[]" ex_no_memories 1]
  by (simp add: spec_overallConfidence_def spec_boostVendor_def spec_averageAutoApplied_def
      spec_penalisePending_def spec_penaliseDuplicate_def spec_penaliseNewVendor_def
      spec_clamp_def ex_no_memories_def)

subsection \<open>Confidence decay\<close>




subsection \<open>Correction memory\<close>

lemmas correction_eval =
  runCorrectionOps_def recordCorrection_def findMatchingCorrection_def getCorrectionMemories_def
  orderByDesc_def reinforceCorrection_def weakenCorrection_def calculateCorrectionConfidence_def
  truthy_def emptyStore_def Let_def

lemma clamp_095_eq: "min 0.95 (max 0.1 x) = spec_clamp 0.1 0.95 (x::real)"
  by (simp add: spec_clamp_def min_def max_def)

lemma calculateCorrectionConfidence_spec:
  assumes "0 < s + f"
  shows "calculateCorrectionConfidence s f = spec_correctionConfidence s f"
proof -
  have a: "real (s + f * 2) = real s + 2 * real f" by simp
  have b: "real (s + f) = real s + real f" by simp
  have ne: "s + f \<noteq> 0" using assms by simp
  show ?thesis
    unfolding calculateCorrectionConfidence_def spec_correctionConfidence_def Let_def
      clamp_095_eq[symmetric] a b
    using ne by simp
qed

lemma find_id_unique:
  "distinct (map cm_id xs) \<Longrightarrow> find (\<lambda>c. cm_id c = i) xs = Some row \<Longrightarrow> c \<in> set xs
     \<Longrightarrow> cm_id c = i \<Longrightarrow> c = row"
  by (induction xs) (auto split: if_splits simp: rev_image_eqI)

lemma cm_id_after_reinforce:
  "(cm_id \<circ> (\<lambda>c. if cm_id c = i then c\<lparr>cm_successCount := a, cm_confidence := b\<rparr> else c)) = cm_id"
  by (rule ext) simp

lemma cm_id_after_weaken:
  "(cm_id \<circ> (\<lambda>c. if cm_id c = i then c\<lparr>cm_failureCount := a, cm_confidence := b\<rparr> else c)) = cm_id"
  by (rule ext) simp

lemma reinforceCorrection_inv:
  assumes "correctionTableInv st"
  shows "correctionTableInv (reinforceCorrection st i)"
proof (cases "find (\<lambda>c. cm_id c = i) (correction_memories st)")
  case None
  then show ?thesis using assms by (simp add: reinforceCorrection_def)
next
  case (Some row)
  have d: "distinct (map cm_id (correction_memories st))"
    using assms by (simp add: correctionTableInv_def)
  have same: "c = row" if "c \<in> set (correction_memories st)" "cm_id c = i" for c
    using find_id_unique[OF d Some that] .
  show ?thesis
    using assms Some same
    by (auto simp: correctionTableInv_def reinforceCorrection_def Let_def cm_id_after_reinforce
        storedConfidenceRule_def calculateCorrectionConfidence_spec list_all_iff)
qed

lemma weakenCorrection_inv:
  assumes "correctionTableInv st"
  shows "correctionTableInv (weakenCorrection st i)"
proof (cases "find (\<lambda>c. cm_id c = i) (correction_memories st)")
  case None
  then show ?thesis using assms by (simp add: weakenCorrection_def)
next
  case (Some row)
  have d: "distinct (map cm_id (correction_memories st))"
    using assms by (simp add: correctionTableInv_def)
  have same: "c = row" if "c \<in> set (correction_memories st)" "cm_id c = i" for c
    using find_id_unique[OF d Some that] .
  show ?thesis
    using assms Some same
    by (auto simp: correctionTableInv_def weakenCorrection_def Let_def cm_id_after_weaken
        storedConfidenceRule_def calculateCorrectionConfidence_spec list_all_iff)
qed

lemma recordCorrection_inv:
  assumes "correctionTableInv st"
  shows "correctionTableInv (fst (recordCorrection st v f p t x))"
proof (cases "findMatchingCorrection st v f (Some p)")
  case None
  then show ?thesis
    using assms
    by (auto simp: recordCorrection_def correctionTableInv_def Let_def storedConfidenceRule_def
        less_Suc_eq list_all_iff)
next
  case (Some existing)
  then show ?thesis
    using reinforceCorrection_inv[OF assms] by (simp add: recordCorrection_def)
qed

lemma applyCorrectionOp_inv:
  "correctionTableInv st \<Longrightarrow> correctionTableInv (applyCorrectionOp st op)"
  by (cases op) (simp_all add: recordCorrection_inv reinforceCorrection_inv weakenCorrection_inv)

lemma runCorrectionOps_inv:
  "correctionTableInv st \<Longrightarrow> correctionTableInv (runCorrectionOps st ops)"
  unfolding runCorrectionOps_def
  by (induction ops arbitrary: st) (simp_all add: applyCorrectionOp_inv)

lemma emptyStore_inv: "correctionTableInv emptyStore"
  by (simp add: correctionTableInv_def emptyStore_def)

lemma ex_ops_result:
  "correction_memories (runCorrectionOps emptyStore ex_ops) = [ex_correction_row (4 / 9) 1 1]"
  by (simp add: ex_ops_def ex_correction_row_def correction_eval)

text \<open>
  C6 (amended). After any sequence of create, reinforce and weaken operations from the
  empty store, a correction memory that has only been created (counters 1 and 0) holds
  the initial confidence 0.6, and every memory reinforced or weakened since holds
  \<open>clamp(0.1, 0.95, 0.3 + adjustedRate * 0.65 * observationFactor)\<close> of its stored
  counters.
\<close>

theorem correction_confidence_after_ops:
  "\<forall>c \<in> set (correction_memories (runCorrectionOps emptyStore ops)).
     cm_confidence c =
       (if cm_successCount c = 1 \<and> cm_failureCount c = 0 then 0.6
        else spec_correctionConfidence (cm_successCount c) (cm_failureCount c))"
  using runCorrectionOps_inv[OF emptyStore_inv, of ops]
  by (simp add: correctionTableInv_def storedConfidenceRule_def list_all_iff)

theorem correction_confidence_after_ops_witness:
  "correction_memories (runCorrectionOps emptyStore ex_ops) = [ex_correction_row (4 / 9) 1 1]
   \<and> spec_correctionConfidence 1 1 = 4 / 9"
  using correction_confidence_after_ops[of ex_ops]
  by (simp add: ex_ops_result ex_correction_row_def)

text \<open>
  C6 as stated fails right after creation: the new memory holds 0.6, the formula gives
  31/60 for one success and no failure.
\<close>

theorem correction_confidence_create_counterexample:
  "correction_memories
     (fst (recordCorrection emptyStore ''Parts AG'' ''currency'' ''missing_currency'' set_currency
             (JStr ''EUR'')))
     = [ex_correction_row 0.6 1 0]
   \<and> spec_correctionConfidence 1 0 = 31 / 60"
  by (simp add: ex_correction_row_def correction_eval spec_correctionConfidence_def spec_clamp_def)

subsection \<open>Vendor memory\<close>

lemmas vendor_eval =
  updateFieldMapping_def updateDefaultCurrency_def updatePaymentTerms_def
  getOrCreateVendorMemory_def getVendorMemory_def createVendorMemory_def updateVendorRows_def
  calculateOverallConfidence_vendor_def subMemoryConfidences_def emptyStore_def Let_def

text \<open>
  C7, evaluated where it fails. \<open>updateFieldMapping\<close> recomputes the aggregate (0.384
  for one mapping of confidence 0.6 and usage count 1). \<open>updateDefaultCurrency\<close> then
  raises the usage count to 2 and leaves 0.384 stored, where the formula gives 0.468.
\<close>

theorem updateDefaultCurrency_leaves_confidence_stale:
  "vendor_memories ex_vendor_store = [ex_vendor_row 1 None]
   \<and> vm_confidence (ex_vendor_row 1 None) = spec_vendorConfidence (ex_vendor_row 1 None)
   \<and> vendor_memories (updateDefaultCurrency ex_vendor_store ''Supplier GmbH'' ''EUR'')
        = [ex_vendor_row 2 (Some ''EUR'')]
   \<and> vm_confidence (ex_vendor_row 2 (Some ''EUR'')) = 0.384
   \<and> spec_vendorConfidence (ex_vendor_row 2 (Some ''EUR'')) = 0.468
   \<and> calculateOverallConfidence_vendor (ex_vendor_row 2 (Some ''EUR'')) = 0.468"
  by (simp add: ex_vendor_store_def ex_vendor_row_def vendor_eval spec_vendorConfidence_def)

subsection \<open>Line-item field names\<close>

lemma digit_nth_isDigit: "k < 10 \<Longrightarrow> isDigit (''0123456789'' ! k)"
proof -
  assume "k < 10"
  then have "k \<in> {0,1,2,3,4,5,6,7,8,9}" by auto
  then show ?thesis by (auto simp: isDigit_def)
qed

lemma digit_nth_val: "k < 10 \<Longrightarrow> digitVal (''0123456789'' ! k) = k"
proof -
  assume "k < 10"
  then have "k \<in> {0,1,2,3,4,5,6,7,8,9}" by auto
  then show ?thesis by (auto simp: digitVal_def)
qed

lemma showNat_digits: "list_all isDigit (showNat n)"
proof (induction n rule: showNat.induct)
  case (1 n)
  show ?case
  proof (cases "n < 10")
    case True
    then show ?thesis by (subst showNat.simps) (simp add: digit_nth_isDigit)
  next
    case False
    then show ?thesis using 1 by (subst showNat.simps) (simp add: digit_nth_isDigit)
  qed
qed

lemma showNat_nonempty: "showNat n \<noteq> []"
  by (subst showNat.simps) simp

lemma parseInt_snoc: "parseInt (ds @ [d]) = 10 * parseInt ds + digitVal d"
  by (simp add: parseInt_def)

lemma parseInt_showNat: "parseInt (showNat n) = n"
proof (induction n rule: showNat.induct)
  case (1 n)
  show ?case
  proof (cases "n < 10")
    case True
    then show ?thesis by (subst showNat.simps) (simp add: digit_nth_val parseInt_def)
  next
    case False
    then show ?thesis using 1
      by (subst showNat.simps) (simp add: parseInt_snoc digit_nth_val)
  qed
qed

lemma takeWhile_digits: "list_all isDigit ds \<Longrightarrow> \<not> isDigit c \<Longrightarrow> takeWhile isDigit (ds @ c # r) = ds"
  by (induction ds) auto

lemma dropWhile_digits: "list_all isDigit ds \<Longrightarrow> \<not> isDigit c \<Longrightarrow> dropWhile isDigit (ds @ c # r) = c # r"
  by (induction ds) auto

lemma matchLineItems_skuField: "matchLineItems (lineItemSkuField i) = Some i"
proof -
  have nd: "\<not> isDigit CHR '']''" by (simp add: isDigit_def)
  have "matchLineItemsAt (lineItemSkuField i) = Some i"
    by (simp add: matchLineItemsAt_def lineItemSkuField_def Let_def
        takeWhile_digits[OF showNat_digits nd] dropWhile_digits[OF showNat_digits nd]
        showNat_nonempty parseInt_showNat)
  moreover have "lineItemSkuField i = CHR ''l'' # tl (lineItemSkuField i)"
    by (simp add: lineItemSkuField_def)
  ultimately show ?thesis
    by (metis matchLineItems.simps(2) option.simps(5))
qed

lemma lineItemSkuField_inj: "lineItemSkuField i = lineItemSkuField j \<Longrightarrow> i = j"
  by (metis matchLineItems_skuField option.inject)

subsection \<open>Apply: the currency of the normalized invoice\<close>

lemma currency_applyServiceDate: "n_currency (fst (applyServiceDate X ivc vm s)) = n_currency (fst s)"
  by (cases s) (simp add: applyServiceDate_def Let_def split: option.splits)

lemma currency_applyTaxBehavior: "n_currency (fst (applyTaxBehavior X ivc vm s)) = n_currency (fst s)"
  by (cases s) (simp add: applyTaxBehavior_def Let_def split: option.splits)

lemma currency_applyCurrency: "n_currency (fst s) \<noteq> [] \<Longrightarrow> n_currency (fst (applyCurrency ivc vm s)) \<noteq> []"
  by (cases s) (simp add: applyCurrency_def Let_def split: option.splits)

lemma currency_applySkuAt: "n_currency (fst (applySkuAt vm s i)) = n_currency (fst s)"
  by (cases s) (simp add: applySkuAt_def Let_def split: option.splits)

lemma currency_foldl_applySkuAt: "n_currency (fst (foldl (applySkuAt vm) s is)) = n_currency (fst s)"
  by (induction "is" arbitrary: s) (simp_all add: currency_applySkuAt)

lemma currency_applySkuMappings: "n_currency (fst (applySkuMappings vm s)) = n_currency (fst s)"
  by (simp add: applySkuMappings_def currency_foldl_applySkuAt)

lemma currency_applyPaymentTerms: "n_currency (fst (applyPaymentTerms vm s)) = n_currency (fst s)"
  by (cases s) (simp add: applyPaymentTerms_def Let_def)

lemma currency_applyExtractedTerms: "n_currency (fst (applyExtractedTerms X ivc s)) = n_currency (fst s)"
  by (cases s) (simp add: applyExtractedTerms_def Let_def split: option.splits)

lemma currency_applyPurchaseOrder: "n_currency (fst (applyPurchaseOrder ivc pos s)) = n_currency (fst s)"
  by (cases s) (simp add: applyPurchaseOrder_def Let_def split: option.splits)

lemma currency_initialNormalized: "n_currency (initialNormalized ivc) \<noteq> []"
  by (simp add: initialNormalized_def orElse_def split: option.splits)

lemma currency_applyMemories: "n_currency (ar_normalizedInvoice (applyMemories X ivc m pos)) \<noteq> []"
  by (simp add: applyMemories_def Let_def applyVendorMemory_def currency_applyPurchaseOrder
      currency_applyExtractedTerms currency_applyPaymentTerms currency_applySkuMappings
      currency_applyCurrency currency_applyTaxBehavior currency_applyServiceDate
      currency_initialNormalized split: option.splits)

lemma makeDecision_no_missing_field:
  assumes "checkMissingFields n cs = []"
  shows "MissingCriticalField f \<notin> set (escalationReasons (makeDecision n cs m b))"
  using assms
  by (auto simp: makeDecision_def Let_def split: option.splits prod.splits if_splits)



lemma ex_extractCurrency: "extractCurrencyFromRawText ''Total 1190 Currency: USD'' = Some ''USD''"
  by (simp add: extractCurrencyFromRawText_def matchCurrencyLabel_def toLowerCase_def lowerChar_def
      toUpperCase_def upperChar_def isLetter_def isSpace_def Let_def)

lemma ex_step0: "initialNormalized ex_invoice = ex_initial"
  by (simp add: initialNormalized_def ex_invoice_def ex_initial_def normalizeLineItems_def
      orUndefined_def orElse_def absent_def)

lemma ex_step1: "applyServiceDate ex_extractors ex_invoice ex_vendor_memory (ex_initial, []) = (ex_initial, [])"
  by (simp add: applyServiceDate_def ex_vendor_memory_def)

lemma ex_step2: "applyTaxBehavior ex_extractors ex_invoice ex_vendor_memory (ex_initial, []) = (ex_initial, [])"
  by (simp add: applyTaxBehavior_def ex_vendor_memory_def)

lemma ex_step3:
  "applyCurrency ex_invoice ex_vendor_memory (ex_initial, [])
     = (ex_initial\<lparr> n_currency := ''USD'' \<rparr>, [ex_currency_correction])"
  by (simp add: applyCurrency_def ex_vendor_memory_def ex_invoice_def absent_def ex_extractCurrency
      ex_currency_correction_def)

lemma ex_step4:
  "applySkuMappings ex_vendor_memory (ex_initial\<lparr> n_currency := ''USD'' \<rparr>, [ex_currency_correction])
     = (ex_final, [ex_currency_correction, ex_sku_correction])"
  by (simp add: applySkuMappings_def applySkuAt_def ex_vendor_memory_def ex_initial_def ex_final_def
      ex_sku_correction_def toLowerCase_def lowerChar_def lineItemSkuField_def showNat.simps
      orNull_def AUTO_APPLY_THRESHOLD_def Let_def)

lemma ex_step5:
  "applyPaymentTerms ex_vendor_memory (ex_final, cs) = (ex_final, cs)"
  by (simp add: applyPaymentTerms_def ex_vendor_memory_def absent_def)

lemma ex_step6:
  "applyExtractedTerms ex_extractors ex_invoice (ex_final, cs) = (ex_final, cs)"
  by (simp add: applyExtractedTerms_def ex_final_def ex_initial_def absent_def)

lemma ex_step7:
  "applyPurchaseOrder ex_invoice None (ex_final, cs) = (ex_final, cs)"
  by (simp add: applyPurchaseOrder_def)

lemma ex_apply_result:
  "applyMemories ex_extractors ex_invoice ex_memories None
     = \<lparr> ar_normalizedInvoice = ex_final,
         ar_proposedCorrections = [ex_currency_correction, ex_sku_correction] \<rparr>"
  by (simp add: applyMemories_def applyVendorMemory_def ex_memories_def ex_step0 ex_step1 ex_step2
      ex_step3 ex_step4 ex_step5 ex_step6 ex_step7)

text \<open>
  C10. The normalized invoice of \<open>applyMemories\<close> always has a non-empty currency: an
  absent currency starts as the literal EUR, and no later step empties it. Hence
  \<open>checkMissingFields\<close> reports nothing on it, and \<open>makeDecision\<close> never escalates
  for a missing critical field, whatever corrections and memories it is given.
\<close>

theorem applyMemories_currency_present:
  "(absent (currency (inv_fields invoice)) \<longrightarrow> n_currency (initialNormalized invoice) = ''EUR'')
   \<and> n_currency (ar_normalizedInvoice (applyMemories X invoice memories purchaseOrders)) \<noteq> []
   \<and> checkMissingFields (ar_normalizedInvoice (applyMemories X invoice memories purchaseOrders))
        corrections = []
   \<and> MissingCriticalField f \<notin> set (escalationReasons
        (makeDecision (ar_normalizedInvoice (applyMemories X invoice memories purchaseOrders))
           corrections memories' baseConfidence))"
proof -
  have c: "n_currency (ar_normalizedInvoice (applyMemories X invoice memories purchaseOrders)) \<noteq> []"
    by (rule currency_applyMemories)
  then have m: "checkMissingFields (ar_normalizedInvoice (applyMemories X invoice memories purchaseOrders))
        corrections = []"
    by (simp add: checkMissingFields_def)
  have i: "absent (currency (inv_fields invoice)) \<longrightarrow> n_currency (initialNormalized invoice) = ''EUR''"
    by (simp add: initialNormalized_def absent_def orElse_def split: option.splits)
  show ?thesis
    using c m i makeDecision_no_missing_field[OF m] by simp
qed

theorem applyMemories_currency_present_witness:
  "absent (currency (inv_fields ex_invoice))
   \<and> n_currency (initialNormalized ex_invoice) = ''EUR''
   \<and> n_currency (ar_normalizedInvoice (applyMemories ex_extractors ex_invoice ex_memories None)) = ''USD''
   \<and> checkMissingFields (ar_normalizedInvoice (applyMemories ex_extractors ex_invoice ex_memories None))
        [] = []"
  using applyMemories_currency_present[of ex_invoice ex_extractors ex_memories None "[]"]
  by (simp add: ex_apply_result ex_final_def ex_initial_def) (simp add: ex_invoice_def absent_def)

subsection \<open>Apply: auto-applied and pending corrections\<close>

lemma correctionSound_cong:
  "readField n' (pc_field c) = readField n (pc_field c) \<Longrightarrow> readField m (pc_field c) = readField m0 (pc_field c)
   \<Longrightarrow> correctionSound m n' c = correctionSound m0 n c"
  unfolding correctionSound_def by simp

lemma applyInv_step:
  assumes inv: "applyInv F n0 (n, cs)"
    and fresh: "G \<inter> F = {}"
    and len: "length (n_lineItems n') = length (n_lineItems n)"
    and frame: "\<And>f. f \<notin> G \<Longrightarrow> readField n' f = readField n f"
    and new: "\<And>c. c \<in> set new \<Longrightarrow> pc_field c \<in> G \<and> correctionSound n n' c"
  shows "applyInv (F \<union> G) n0 (n', cs @ new)"
proof -
  have l: "length (n_lineItems n) = length (n_lineItems n0)"
    and out: "\<And>f. f \<notin> F \<Longrightarrow> readField n f = readField n0 f"
    and olds: "\<And>c. c \<in> set cs \<Longrightarrow> pc_field c \<in> F \<and> correctionSound n0 n c"
    using inv by (auto simp: applyInv_def)
  have 1: "length (n_lineItems n') = length (n_lineItems n0)" using len l by simp
  have 2: "readField n' f = readField n0 f" if "f \<notin> F \<union> G" for f
    using that frame[of f] out[of f] by simp
  have 3: "pc_field c \<in> F \<union> G \<and> correctionSound n0 n' c" if c: "c \<in> set (cs @ new)" for c
  proof (cases "c \<in> set cs")
    case True
    then have f: "pc_field c \<in> F" and s: "correctionSound n0 n c" using olds by auto
    from f fresh have "pc_field c \<notin> G" by auto
    then have "readField n' (pc_field c) = readField n (pc_field c)" by (rule frame)
    then have "correctionSound n0 n' c = correctionSound n0 n c"
      by (rule correctionSound_cong) simp
    with f s show ?thesis by simp
  next
    case False
    with c have cn: "c \<in> set new" by simp
    then have g: "pc_field c \<in> G" and s: "correctionSound n n' c" using new by auto
    from g fresh have "pc_field c \<notin> F" by auto
    then have "readField n (pc_field c) = readField n0 (pc_field c)" by (rule out)
    then have "correctionSound n n' c = correctionSound n0 n' c"
      by (intro correctionSound_cong) simp_all
    with g s show ?thesis by simp
  qed
  show ?thesis
    unfolding applyInv_def using 1 2 3 by simp
qed

lemma applyInv_mono:
  assumes "applyInv F n0 s" and "F \<subseteq> H"
  shows "applyInv H n0 s"
  using assms unfolding applyInv_def by auto

lemma applyInv_propose:
  assumes "applyInv F n0 (n, cs)" and "g \<notin> F" and "pc_field c = g"
    and "length (n_lineItems n') = length (n_lineItems n)"
    and "\<And>f. f \<noteq> g \<Longrightarrow> readField n' f = readField n f"
    and "correctionSound n n' c"
  shows "applyInv (insert g F) n0 (n', cs @ [c])"
  using applyInv_step[OF assms(1), of "{g}" n' "[c]"] assms(2-) by simp

lemma applyInv_modify:
  assumes "applyInv F n0 (n, cs)" and "g \<notin> F"
    and "length (n_lineItems n') = length (n_lineItems n)"
    and "\<And>f. f \<noteq> g \<Longrightarrow> readField n' f = readField n f"
  shows "applyInv (insert g F) n0 (n', cs)"
  using applyInv_step[OF assms(1), of "{g}" n' "[]"] assms(2-) by simp

lemma applyInv_propose2:
  assumes "applyInv F n0 (n, cs)" and "g1 \<notin> F" and "g2 \<notin> F" and "pc_field c1 = g1" and "pc_field c2 = g2"
    and "length (n_lineItems n') = length (n_lineItems n)"
    and "\<And>f. f \<noteq> g1 \<Longrightarrow> f \<noteq> g2 \<Longrightarrow> readField n' f = readField n f"
    and "correctionSound n n' c1" and "correctionSound n n' c2"
  shows "applyInv (insert g1 (insert g2 F)) n0 (n', cs @ [c1, c2])"
  using applyInv_step[OF assms(1), of "{g1, g2}" n' "[c1, c2]"] assms(2-) by auto

lemma inv_applyServiceDate:
  assumes inv: "applyInv F n0 s" and fresh: "''serviceDate'' \<notin> F"
  shows "applyInv (insert ''serviceDate'' F) n0 (applyServiceDate X ivc vm s)"
proof -
  obtain n cs where s: "s = (n, cs)" by (cases s)
  have same: "applyInv (insert ''serviceDate'' F) n0 (n, cs)"
    using inv[unfolded s] by (rule applyInv_mono) auto
  show ?thesis
    unfolding s applyServiceDate_def Let_def prod.case
    using same
    by (auto split: option.splits intro!: applyInv_propose[OF inv[unfolded s] fresh]
        simp: readField_def correctionSound_def soundAt_def optValue_def absent_def)
qed

lemma inv_applyTaxBehavior:
  assumes inv: "applyInv F n0 s" and fresh: "''grossTotal'' \<notin> F" "''taxTotal'' \<notin> F"
  shows "applyInv (insert ''grossTotal'' (insert ''taxTotal'' F)) n0 (applyTaxBehavior X ivc vm s)"
proof -
  obtain n cs where s: "s = (n, cs)" by (cases s)
  have same: "applyInv (insert ''grossTotal'' (insert ''taxTotal'' F)) n0 (n, cs)"
    using inv[unfolded s] by (rule applyInv_mono) auto
  show ?thesis
    unfolding s applyTaxBehavior_def Let_def prod.case
    using same
    by (auto split: option.splits intro!: applyInv_propose2[OF inv[unfolded s] fresh]
        simp: readField_def correctionSound_def soundAt_def)
qed

lemma inv_applyCurrency:
  assumes inv: "applyInv F n0 s" and fresh: "''currency'' \<notin> F"
  shows "applyInv (insert ''currency'' F) n0 (applyCurrency ivc vm s)"
proof -
  obtain n cs where s: "s = (n, cs)" by (cases s)
  have same: "applyInv (insert ''currency'' F) n0 (n, cs)"
    using inv[unfolded s] by (rule applyInv_mono) auto
  show ?thesis
    unfolding s applyCurrency_def Let_def prod.case
    using same
    by (auto split: option.splits intro!: applyInv_propose[OF inv[unfolded s] fresh]
        simp: readField_def correctionSound_def soundAt_def AUTO_APPLY_THRESHOLD_def)
qed


lemma skuField_not_scalar:
  "lineItemSkuField i \<noteq> ''serviceDate''" "lineItemSkuField i \<noteq> ''currency''"
  "lineItemSkuField i \<noteq> ''poNumber''" "lineItemSkuField i \<noteq> ''taxTotal''"
  "lineItemSkuField i \<noteq> ''grossTotal''" "lineItemSkuField i \<noteq> ''discountTerms''"
  by (simp_all add: lineItemSkuField_def)

lemma readField_skuField:
  "readField n (lineItemSkuField i) =
     (if i < length (n_lineItems n) then Some (JStr (nl_sku (n_lineItems n ! i))) else None)"
  by (simp add: readField_def skuField_not_scalar matchLineItems_skuField)

lemma readField_sku_frame:
  assumes "f \<noteq> lineItemSkuField i"
  shows "readField (n\<lparr> n_lineItems := (n_lineItems n)[i := x] \<rparr>) f = readField n f"
proof (cases "matchLineItems f")
  case None
  then show ?thesis by (simp add: readField_def)
next
  case (Some j)
  show ?thesis
  proof (cases "f = lineItemSkuField j")
    case True
    with assms have "j \<noteq> i" by auto
    then show ?thesis using Some by (simp add: readField_def)
  next
    case False
    then show ?thesis using Some by (simp add: readField_def)
  qed
qed

lemma inv_applySkuAt:
  assumes inv: "applyInv F n0 s" and fresh: "lineItemSkuField i \<notin> F"
    and i: "i < length (n_lineItems n0)"
  shows "applyInv (insert (lineItemSkuField i) F) n0 (applySkuAt vm s i)"
proof -
  obtain n cs where s: "s = (n, cs)" by (cases s)
  have same: "applyInv (insert (lineItemSkuField i) F) n0 (n, cs)"
    using inv[unfolded s] by (rule applyInv_mono) auto
  have len: "i < length (n_lineItems n)"
    using inv i by (simp add: applyInv_def s)
  show ?thesis
    unfolding s applySkuAt_def Let_def prod.case
    using same len
    by (auto split: option.splits intro!: applyInv_propose[OF inv[unfolded s] fresh]
        simp: readField_skuField readField_sku_frame correctionSound_def soundAt_def
              skuField_not_scalar)
qed

lemma inv_foldl_applySkuAt:
  assumes "applyInv F n0 s" and "distinct is"
    and "\<And>i. i \<in> set is \<Longrightarrow> i < length (n_lineItems n0) \<and> lineItemSkuField i \<notin> F"
  shows "applyInv (F \<union> lineItemSkuField ` set is) n0 (foldl (applySkuAt vm) s is)"
  using assms
proof (induction "is" arbitrary: s F)
  case Nil
  then show ?case by simp
next
  case (Cons i "is")
  have step: "applyInv (insert (lineItemSkuField i) F) n0 (applySkuAt vm s i)"
    using Cons.prems by (intro inv_applySkuAt) auto
  have rest: "j < length (n_lineItems n0) \<and> lineItemSkuField j \<notin> insert (lineItemSkuField i) F"
    if "j \<in> set is" for j
    using that Cons.prems(2,3) by (auto dest: lineItemSkuField_inj)
  have "applyInv (insert (lineItemSkuField i) F \<union> lineItemSkuField ` set is) n0
          (foldl (applySkuAt vm) (applySkuAt vm s i) is)"
    using Cons.prems(2) by (intro Cons.IH[OF step _ rest]) auto
  then show ?case by simp
qed

lemma inv_applySkuMappings:
  assumes inv: "applyInv F n0 s"
    and fresh: "\<And>i. lineItemSkuField i \<notin> F"
  shows "applyInv (F \<union> range lineItemSkuField) n0 (applySkuMappings vm s)"
proof -
  have len: "length (n_lineItems (fst s)) = length (n_lineItems n0)"
    using inv by (simp add: applyInv_def)
  have "applyInv (F \<union> lineItemSkuField ` set [0 ..< length (n_lineItems n0)]) n0
          (foldl (applySkuAt vm) s [0 ..< length (n_lineItems n0)])"
    by (rule inv_foldl_applySkuAt[OF inv]) (auto simp: fresh)
  then show ?thesis
    unfolding applySkuMappings_def len by (rule applyInv_mono) auto
qed

lemma inv_applyTerms:
  assumes inv: "applyInv F n0 s" and fresh: "''discountTerms'' \<notin> F"
  shows "applyInv (insert ''discountTerms'' F) n0 (applyExtractedTerms X ivc (applyPaymentTerms vm s))"
proof -
  obtain n cs where s: "s = (n, cs)" by (cases s)
  have same: "applyInv (insert ''discountTerms'' F) n0 (n, cs)"
    using inv[unfolded s] by (rule applyInv_mono) auto
  show ?thesis
    unfolding s applyExtractedTerms_def applyPaymentTerms_def Let_def prod.case
    using same
    by (auto split: option.splits
        intro!: applyInv_propose[OF inv[unfolded s] fresh] applyInv_modify[OF inv[unfolded s] fresh]
        simp: readField_def correctionSound_def soundAt_def absent_def optValue_def
              AUTO_APPLY_THRESHOLD_def)
qed

lemma inv_applyExtractedTerms:
  assumes inv: "applyInv F n0 s" and fresh: "''discountTerms'' \<notin> F"
  shows "applyInv (insert ''discountTerms'' F) n0 (applyExtractedTerms X ivc s)"
proof -
  obtain n cs where s: "s = (n, cs)" by (cases s)
  have same: "applyInv (insert ''discountTerms'' F) n0 (n, cs)"
    using inv[unfolded s] by (rule applyInv_mono) auto
  show ?thesis
    unfolding s applyExtractedTerms_def Let_def prod.case
    using same
    by (auto split: option.splits
        intro!: applyInv_propose[OF inv[unfolded s] fresh]
        simp: readField_def correctionSound_def soundAt_def absent_def optValue_def
              AUTO_APPLY_THRESHOLD_def)
qed

lemma inv_applyPurchaseOrder:
  assumes inv: "applyInv F n0 s" and fresh: "''poNumber'' \<notin> F"
  shows "applyInv (insert ''poNumber'' F) n0 (applyPurchaseOrder ivc pos s)"
proof -
  obtain n cs where s: "s = (n, cs)" by (cases s)
  have same: "applyInv (insert ''poNumber'' F) n0 (n, cs)"
    using inv[unfolded s] by (rule applyInv_mono) auto
  show ?thesis
    unfolding s applyPurchaseOrder_def Let_def prod.case
    using same
    by (auto split: option.splits
        intro!: applyInv_propose[OF inv[unfolded s] fresh]
        simp: readField_def correctionSound_def soundAt_def absent_def optValue_def)
qed

lemma applyInv_initial: "applyInv {} n0 (n0, [])"
  by (simp add: applyInv_def)

lemma applyMemories_inv:
  "\<exists>F. applyInv F (initialNormalized ivc)
          (ar_normalizedInvoice (applyMemories X ivc m pos), ar_proposedCorrections (applyMemories X ivc m pos))"
proof (cases "vendorMemory m")
  case None
  let ?n0 = "initialNormalized ivc"
  have 6: "applyInv {''discountTerms''} ?n0 (applyExtractedTerms X ivc (?n0, []))"
    by (rule inv_applyExtractedTerms[OF applyInv_initial]) simp
  have 7: "applyInv (insert ''poNumber'' {''discountTerms''}) ?n0
             (applyPurchaseOrder ivc pos (applyExtractedTerms X ivc (?n0, [])))"
    by (rule inv_applyPurchaseOrder[OF 6]) simp
  show ?thesis
    using 7 None by (auto simp: applyMemories_def Let_def)
next
  case (Some vm)
  let ?n0 = "initialNormalized ivc"
  let ?s1 = "applyServiceDate X ivc vm (?n0, [])"
  let ?s2 = "applyTaxBehavior X ivc vm ?s1"
  let ?s3 = "applyCurrency ivc vm ?s2"
  let ?s4 = "applySkuMappings vm ?s3"
  let ?s6 = "applyExtractedTerms X ivc (applyPaymentTerms vm ?s4)"
  let ?s7 = "applyPurchaseOrder ivc pos ?s6"
  let ?F3 = "{''currency'', ''grossTotal'', ''taxTotal'', ''serviceDate''}"
  have 1: "applyInv {''serviceDate''} ?n0 ?s1"
    by (rule inv_applyServiceDate[OF applyInv_initial]) simp
  have 2: "applyInv {''grossTotal'', ''taxTotal'', ''serviceDate''} ?n0 ?s2"
    by (rule inv_applyTaxBehavior[OF 1]) simp_all
  have 3: "applyInv ?F3 ?n0 ?s3"
    by (rule inv_applyCurrency[OF 2]) simp
  have 4: "applyInv (?F3 \<union> range lineItemSkuField) ?n0 ?s4"
    by (rule inv_applySkuMappings[OF 3]) (simp add: skuField_not_scalar)
  have 6: "applyInv (insert ''discountTerms'' (?F3 \<union> range lineItemSkuField)) ?n0 ?s6"
    by (rule inv_applyTerms[OF 4]) (auto simp: lineItemSkuField_def)
  have 7: "applyInv (insert ''poNumber'' (insert ''discountTerms'' (?F3 \<union> range lineItemSkuField))) ?n0 ?s7"
    by (rule inv_applyPurchaseOrder[OF 6]) (auto simp: lineItemSkuField_def)
  show ?thesis
    using 7 Some by (auto simp: applyMemories_def Let_def applyVendorMemory_def)
qed


text \<open>
  C3 (amended). For every correction \<open>applyMemories\<close> proposes: it is flagged
  auto-applied exactly when its confidence is at least 0.85; an auto-applied correction's
  value is the value of its field in the normalized invoice; a pending correction leaves
  its field as the input had it, except the two proposals recovered from the raw text
  (the currency at confidence 0.7 and the discount terms at confidence 0.8), whose value
  is written into the normalized invoice although they are flagged pending.
\<close>

theorem applyMemories_written_when_auto_applied:
  assumes "c \<in> set (ar_proposedCorrections (applyMemories X invoice memories purchaseOrders))"
  shows "pc_autoApplied c = (pc_confidence c \<ge> 0.85)
    \<and> (pc_autoApplied c \<longrightarrow>
          readField (ar_normalizedInvoice (applyMemories X invoice memories purchaseOrders)) (pc_field c)
            = Some (pc_proposedValue c))
    \<and> (\<not> pc_autoApplied c \<and> pc_field c \<noteq> ''discountTerms''
         \<and> \<not> (pc_field c = ''currency'' \<and> pc_confidence c = 0.7) \<longrightarrow>
          readField (ar_normalizedInvoice (applyMemories X invoice memories purchaseOrders)) (pc_field c)
            = readField (initialNormalized invoice) (pc_field c))
    \<and> (\<not> pc_autoApplied c
         \<and> (pc_field c = ''discountTerms'' \<or> pc_field c = ''currency'' \<and> pc_confidence c = 0.7) \<longrightarrow>
          readField (ar_normalizedInvoice (applyMemories X invoice memories purchaseOrders)) (pc_field c)
            = Some (pc_proposedValue c))"
proof -
  obtain F where "applyInv F (initialNormalized invoice)
      (ar_normalizedInvoice (applyMemories X invoice memories purchaseOrders),
       ar_proposedCorrections (applyMemories X invoice memories purchaseOrders))"
    using applyMemories_inv by blast
  then have "correctionSound (initialNormalized invoice)
      (ar_normalizedInvoice (applyMemories X invoice memories purchaseOrders)) c"
    using assms by (simp add: applyInv_def)
  then show ?thesis
    by (auto simp: correctionSound_def soundAt_def AUTO_APPLY_THRESHOLD_def)
qed



theorem applyMemories_written_when_auto_applied_witness:
  "ex_sku_correction \<in> set (ar_proposedCorrections (applyMemories ex_extractors ex_invoice ex_memories None))
   \<and> pc_autoApplied ex_sku_correction
   \<and> readField (ar_normalizedInvoice (applyMemories ex_extractors ex_invoice ex_memories None))
        ''lineItems[0].sku'' = Some (JStr ''FREIGHT'')"
  using applyMemories_written_when_auto_applied[of ex_sku_correction ex_extractors ex_invoice ex_memories None]
  by (simp add: ex_apply_result) (simp add: ex_sku_correction_def)


text \<open>
  C3 as stated fails for the currency recovered from the raw text: its confidence is 0.7
  and it is flagged pending, yet the normalized currency changes from EUR to USD.
\<close>

theorem applyMemories_rawtext_currency_counterexample:
  "ar_proposedCorrections (applyMemories ex_extractors ex_invoice ex_memories None)
     = [ex_currency_correction, ex_sku_correction]
   \<and> pc_confidence ex_currency_correction = 0.7
   \<and> pc_autoApplied ex_currency_correction = False
   \<and> n_currency (initialNormalized ex_invoice) = ''EUR''
   \<and> n_currency (ar_normalizedInvoice (applyMemories ex_extractors ex_invoice ex_memories None)) = ''USD''"
  by (simp add: ex_apply_result ex_step0 ex_final_def ex_initial_def ex_currency_correction_def)

subsection \<open>Duplicate detection\<close>

lemma set_insertDesc: "set (insertDesc key r xs) = insert r (set xs)"
  by (induction xs) auto

lemma set_orderByDesc_acc: "set (foldl (\<lambda>acc r. insertDesc key r acc) acc rows) = set acc \<union> set rows"
  by (induction rows arbitrary: acc) (auto simp: set_insertDesc)

lemma set_orderByDesc: "set (orderByDesc key rows) = set rows"
  by (simp add: orderByDesc_def set_orderByDesc_acc)













subsection \<open>Learn: a correction that matches no rule\<close>

lemma findMatchingCorrection_Some:
  assumes "findMatchingCorrection st v f p = Some e"
  shows "e \<in> set (correction_memories st) \<and> cm_vendorName e = v \<and> cm_fieldName e = f"
proof -
  let ?ms = "filter (\<lambda>c.
            if cm_fieldName c \<noteq> f then False
            else (case p of
                    Some p \<Rightarrow>
                      if p \<noteq> [] \<and> cm_pattern c \<noteq> []
                      then strIncludes (toLowerCase (cm_pattern c)) (toLowerCase p)
                           \<or> strIncludes (toLowerCase p) (toLowerCase (cm_pattern c))
                      else True
                  | None \<Rightarrow> True)) (getCorrectionMemories st v)"
  from assms obtain rest where ms: "?ms = e # rest"
    by (auto simp: findMatchingCorrection_def Let_def split: list.splits)
  have "e \<in> set ?ms" unfolding ms by simp
  then have "e \<in> set (getCorrectionMemories st v)" and "cm_fieldName e = f"
    by (auto split: if_splits)
  then show ?thesis
    by (auto simp: getCorrectionMemories_def set_orderByDesc)
qed

lemma findMatchingCorrection_None:
  assumes "noMemoryForField st f"
  shows "findMatchingCorrection st v f p = None"
proof (cases "findMatchingCorrection st v f p")
  case None then show ?thesis .
next
  case (Some e)
  from findMatchingCorrection_Some[OF Some] assms show ?thesis
    by (auto simp: noMemoryForField_def list_all_iff)
qed

lemma fieldNames_reinforce:
  "map cm_fieldName (correction_memories (reinforceCorrection st i)) = map cm_fieldName (correction_memories st)"
  by (auto simp: reinforceCorrection_def Let_def split: option.splits)

lemma fieldNames_weaken:
  "map cm_fieldName (correction_memories (weakenCorrection st i)) = map cm_fieldName (correction_memories st)"
  by (auto simp: weakenCorrection_def Let_def split: option.splits)

lemma noMemoryForField_names:
  "noMemoryForField st f = (f \<notin> set (map cm_fieldName (correction_memories st)))"
  by (auto simp: noMemoryForField_def list_all_iff)

lemma noMemory_reinforce: "noMemoryForField (reinforceCorrection st i) f = noMemoryForField st f"
  by (simp only: noMemoryForField_names fieldNames_reinforce)

lemma noMemory_weaken: "noMemoryForField (weakenCorrection st i) f = noMemoryForField st f"
  by (simp only: noMemoryForField_names fieldNames_weaken)

lemma noMemory_recordCorrection:
  "noMemoryForField st f \<Longrightarrow> f \<noteq> g \<Longrightarrow> noMemoryForField (fst (recordCorrection st v g p t x)) f"
  by (auto simp: recordCorrection_def Let_def noMemory_reinforce split: option.splits)
     (simp_all add: noMemoryForField_def)

lemma corr_updateVendorRows [simp]:
  "correction_memories (updateVendorRows st v f) = correction_memories st"
  by (simp add: updateVendorRows_def)

lemma corr_getOrCreate [simp]:
  "correction_memories (fst (getOrCreateVendorMemory st v)) = correction_memories st"
  by (simp add: getOrCreateVendorMemory_def createVendorMemory_def Let_def split: option.splits)

lemma corr_updateFieldMapping [simp]:
  "correction_memories (updateFieldMapping st v l t b) = correction_memories st"
  by (simp add: updateFieldMapping_def Let_def split: prod.splits) (metis corr_getOrCreate fst_conv)

lemma corr_updateTaxBehavior [simp]:
  "correction_memories (updateTaxBehavior st v i r b) = correction_memories st"
  by (simp add: updateTaxBehavior_def Let_def split: prod.splits) (metis corr_getOrCreate fst_conv)

lemma corr_updateDefaultCurrency [simp]:
  "correction_memories (updateDefaultCurrency st v c) = correction_memories st"
  by (simp add: updateDefaultCurrency_def Let_def split: prod.splits) (metis corr_getOrCreate fst_conv)

lemma corr_updateSkuMapping [simp]:
  "correction_memories (updateSkuMapping st v d k b) = correction_memories st"
  by (simp add: updateSkuMapping_def Let_def split: prod.splits) (metis corr_getOrCreate fst_conv)

lemma corr_updatePaymentTerms [simp]:
  "correction_memories (updatePaymentTerms st v t) = correction_memories st"
  by (simp add: updatePaymentTerms_def Let_def split: prod.splits) (metis corr_getOrCreate fst_conv)

lemma noMemory_vendor_updates [simp]:
  "noMemoryForField (updateFieldMapping st v l t b) f = noMemoryForField st f"
  "noMemoryForField (updateTaxBehavior st v i r b) f = noMemoryForField st f"
  "noMemoryForField (updateDefaultCurrency st v c) f = noMemoryForField st f"
  "noMemoryForField (updateSkuMapping st v d k b) f = noMemoryForField st f"
  "noMemoryForField (updatePaymentTerms st v t') f = noMemoryForField st f"
  by (simp_all add: noMemoryForField_def)


lemma noRule_fields:
  assumes "noRuleApplies invoice c"
  shows "fc_field c \<noteq> ''serviceDate''" "fc_field c \<noteq> ''taxTotal''" "fc_field c \<noteq> ''grossTotal''"
    "fc_field c \<noteq> ''currency''" "fc_field c \<noteq> ''poNumber''" "fc_field c \<noteq> ''discountTerms''"
  using assms by (auto simp: noRuleApplies_def ruleFields_def)

lemma learnSku_noRule:
  assumes "noRuleApplies invoice c"
  shows "learnSku invoice v c d s = s"
  using assms
  by (cases s) (auto simp: learnSku_def noRuleApplies_def skuRuleApplies_def Let_def split: option.splits)

lemma processCorrection_noRule:
  assumes nr: "noRuleApplies invoice c" and nm: "noMemoryForField st (fc_field c)"
  shows "processCorrection invoice v d (st, us, ds) c = (st, us, ds)"
  using noRule_fields[OF nr] findMatchingCorrection_None[OF nm]
  by (simp add: processCorrection_def learnServiceDate_def learnTax_def learnCurrency_def
      learnPoNumber_def learnPaymentTerms_def learnSku_noRule[OF nr] reinforceOrWeakenExisting_def)



lemma noMemory_learnServiceDate:
  "noMemoryForField (fst s) f \<Longrightarrow> f \<notin> set ruleFields \<Longrightarrow> noMemoryForField (fst (learnServiceDate v c d s)) f"
  by (cases s) (auto simp: learnServiceDate_def Let_def case_prod_beta ruleFields_def
        noMemory_recordCorrection)

lemma noMemory_learnTax:
  "noMemoryForField (fst s) f \<Longrightarrow> f \<notin> set ruleFields \<Longrightarrow> noMemoryForField (fst (learnTax ivc v c d s)) f"
  by (cases s) (auto simp: learnTax_def Let_def case_prod_beta ruleFields_def
        noMemory_recordCorrection)

lemma noMemory_learnCurrency:
  "noMemoryForField (fst s) f \<Longrightarrow> f \<notin> set ruleFields \<Longrightarrow> noMemoryForField (fst (learnCurrency v c s)) f"
  by (cases s) (auto simp: learnCurrency_def Let_def case_prod_beta ruleFields_def
        noMemory_recordCorrection)

lemma noMemory_learnPoNumber:
  "noMemoryForField (fst s) f \<Longrightarrow> f \<notin> set ruleFields \<Longrightarrow> noMemoryForField (fst (learnPoNumber v c s)) f"
  by (cases s) (auto simp: learnPoNumber_def Let_def case_prod_beta ruleFields_def
        noMemory_recordCorrection)

lemma noMemory_learnSku:
  "noMemoryForField (fst s) f \<Longrightarrow> noMemoryForField (fst (learnSku ivc v c d s)) f"
  by (cases s) (auto simp: learnSku_def Let_def split: option.splits)

lemma noMemory_learnPaymentTerms:
  "noMemoryForField (fst s) f \<Longrightarrow> f \<notin> set ruleFields \<Longrightarrow> noMemoryForField (fst (learnPaymentTerms v c s)) f"
  by (cases s) (auto simp: learnPaymentTerms_def Let_def case_prod_beta ruleFields_def
        noMemory_recordCorrection)

lemma noMemory_reinforceOrWeakenExisting:
  "noMemoryForField (fst s) f \<Longrightarrow> noMemoryForField (fst (reinforceOrWeakenExisting v c d s)) f"
  by (cases s) (auto simp: reinforceOrWeakenExisting_def Let_def noMemory_reinforce noMemory_weaken
        split: option.splits)

lemma noMemory_processCorrection:
  assumes "noMemoryForField (fst s) f" and "f \<notin> set ruleFields"
  shows "noMemoryForField (fst (processCorrection ivc v d s c)) f"
  unfolding processCorrection_def
  by (intro noMemory_reinforceOrWeakenExisting noMemory_learnPaymentTerms noMemory_learnSku
      noMemory_learnPoNumber noMemory_learnCurrency noMemory_learnTax noMemory_learnServiceDate
      assms)

lemma noMemory_foldl_processCorrection:
  assumes "noMemoryForField (fst s) f" and "f \<notin> set ruleFields"
  shows "noMemoryForField (fst (foldl (processCorrection ivc v d) s cs)) f"
  using assms(1)
  by (induction cs arbitrary: s) (simp_all add: noMemory_processCorrection assms(2))

lemma foldl_skip:
  assumes nr: "noRuleApplies ivc bad" and nm: "noMemoryForField (fst s) (fc_field bad)"
  shows "foldl (processCorrection ivc v d) s (pre @ bad # post)
         = foldl (processCorrection ivc v d) s (pre @ post)"
proof -
  let ?s1 = "foldl (processCorrection ivc v d) s pre"
  have f: "fc_field bad \<notin> set ruleFields" using nr by (simp add: noRuleApplies_def)
  have "noMemoryForField (fst ?s1) (fc_field bad)"
    by (rule noMemory_foldl_processCorrection[OF nm f])
  then have "processCorrection ivc v d ?s1 bad = ?s1"
    by (cases ?s1) (simp add: processCorrection_noRule[OF nr])
  then show ?thesis by simp
qed


lemma res_updateVendorRows [simp]:
  "resolution_memories (updateVendorRows st v f) = resolution_memories st"
  by (simp add: updateVendorRows_def)

lemma res_getOrCreate [simp]:
  "resolution_memories (fst (getOrCreateVendorMemory st v)) = resolution_memories st"
  by (simp add: getOrCreateVendorMemory_def createVendorMemory_def Let_def split: option.splits)

lemma res_vendor_updates [simp]:
  "resolution_memories (updateFieldMapping st v l t b) = resolution_memories st"
  "resolution_memories (updateTaxBehavior st v i r b) = resolution_memories st"
  "resolution_memories (updateDefaultCurrency st v c) = resolution_memories st"
  "resolution_memories (updateSkuMapping st v d k b) = resolution_memories st"
  "resolution_memories (updatePaymentTerms st v t') = resolution_memories st"
  by (simp_all add: updateFieldMapping_def updateTaxBehavior_def updateDefaultCurrency_def
      updateSkuMapping_def updatePaymentTerms_def Let_def case_prod_beta)

lemma res_reinforce [simp]: "resolution_memories (reinforceCorrection st i) = resolution_memories st"
  by (simp add: reinforceCorrection_def Let_def split: option.splits)

lemma res_weaken [simp]: "resolution_memories (weakenCorrection st i) = resolution_memories st"
  by (simp add: weakenCorrection_def Let_def split: option.splits)

lemma res_recordCorrection [simp]:
  "resolution_memories (fst (recordCorrection st v g p t x)) = resolution_memories st"
  by (simp add: recordCorrection_def Let_def split: option.splits)

lemma res_rules:
  "resolution_memories (fst (learnServiceDate v c d s)) = resolution_memories (fst s)"
  "resolution_memories (fst (learnTax ivc v c d s)) = resolution_memories (fst s)"
  "resolution_memories (fst (learnCurrency v c s)) = resolution_memories (fst s)"
  "resolution_memories (fst (learnPoNumber v c s)) = resolution_memories (fst s)"
  "resolution_memories (fst (learnSku ivc v c d s)) = resolution_memories (fst s)"
  "resolution_memories (fst (learnPaymentTerms v c s)) = resolution_memories (fst s)"
  "resolution_memories (fst (reinforceOrWeakenExisting v c d s)) = resolution_memories (fst s)"
  by (cases s; simp add: learnServiceDate_def learnTax_def learnCurrency_def
        learnPoNumber_def learnSku_def learnPaymentTerms_def reinforceOrWeakenExisting_def
        Let_def case_prod_beta split: option.splits)+

lemma res_processCorrection:
  "resolution_memories (fst (processCorrection ivc v d s c)) = resolution_memories (fst s)"
  by (simp only: processCorrection_def res_rules)

lemma res_foldl_processCorrection:
  "resolution_memories (fst (foldl (processCorrection ivc v d) s cs)) = resolution_memories (fst s)"
  by (induction cs arbitrary: s) (simp_all add: res_processCorrection)

lemma res_ensureVendorMemory:
  "resolution_memories (fst (ensureVendorMemory st v)) = resolution_memories st"
  by (simp add: ensureVendorMemory_def createVendorMemory_def Let_def split: option.splits)

lemma corr_ensureVendorMemory:
  "correction_memories (fst (ensureVendorMemory st v)) = correction_memories st"
  by (simp add: ensureVendorMemory_def createVendorMemory_def Let_def split: option.splits)

lemma recordResolutions_tables:
  "vendor_memories (foldl (\<lambda>st' c. recordResolution st' i v (fc_field c) (fc_from c) (fc_to c) d (fc_reason c)) st cs)
     = vendor_memories st
   \<and> correction_memories (foldl (\<lambda>st' c. recordResolution st' i v (fc_field c) (fc_from c) (fc_to c) d (fc_reason c)) st cs)
     = correction_memories st
   \<and> map rm_discrepancyType (resolution_memories
        (foldl (\<lambda>st' c. recordResolution st' i v (fc_field c) (fc_from c) (fc_to c) d (fc_reason c)) st cs))
     = map rm_discrepancyType (resolution_memories st) @ map fc_field cs"
  by (induction cs arbitrary: st) (simp_all add: recordResolution_def)

lemma learn_tables:
  "vendor_memories (lr_store (learn md5 nts now st ivc hc))
     = vendor_memories (fst (foldl (processCorrection ivc (vendor ivc) (hc_finalDecision hc))
                                   (ensureVendorMemory st (vendor ivc)) (hc_corrections hc)))"
  "correction_memories (lr_store (learn md5 nts now st ivc hc))
     = correction_memories (fst (foldl (processCorrection ivc (vendor ivc) (hc_finalDecision hc))
                                   (ensureVendorMemory st (vendor ivc)) (hc_corrections hc)))"
  "map rm_discrepancyType (resolution_memories (lr_store (learn md5 nts now st ivc hc)))
     = map rm_discrepancyType (resolution_memories st) @ map fc_field (hc_corrections hc)"
  "lr_memoryUpdates (learn md5 nts now st ivc hc)
     = fst (snd (foldl (processCorrection ivc (vendor ivc) (hc_finalDecision hc))
                                   (ensureVendorMemory st (vendor ivc)) (hc_corrections hc)))"
  "lr_auditDetails (learn md5 nts now st ivc hc)
     = snd (snd (foldl (processCorrection ivc (vendor ivc) (hc_finalDecision hc))
                                   (ensureVendorMemory st (vendor ivc)) (hc_corrections hc)))
       @ [RecordedInvoice (invoiceId ivc)]"
  by (simp_all add: learn_def Let_def case_prod_beta recordProcessedInvoice_def recordResolutions_def
      recordResolutions_tables res_foldl_processCorrection res_ensureVendorMemory)

lemma ex_bad_noRule: "noRuleApplies ex_invoice ex_bad_correction"
  by (simp add: noRuleApplies_def skuRuleApplies_def ruleFields_def ex_bad_correction_def
      ex_invoice_def matchLineItemsAt_def isDigit_def parseInt_def digitVal_def Let_def)

lemma ex_learn_empty_batch:
  "lr_auditDetails (learn ex_md5 ex_numberToString 1000 emptyStore ex_invoice (ex_batch []))
     = [CreatedVendorMemory ''Parts AG'', RecordedInvoice ''INV-B-003'']"
  by (simp add: learn_tables ex_batch_def ensureVendorMemory_def getVendorMemory_def emptyStore_def
      createVendorMemory_def ex_invoice_def Let_def)

text \<open>
  C9 (amended). A field correction that no update rule applies to (unknown field name, or
  a line-item index out of range), with no correction memory stored under its field name,
  does not abort the batch and leaves no trace in the result: the memory updates, the
  audit note, the vendor table and the correction table are those of the same batch
  without it, so every other correction is processed as usual. A resolution memory is
  still recorded for it. The audit note does not mention it.
\<close>

theorem learn_skips_unmatched_correction:
  assumes "noRuleApplies invoice bad"
    and "noMemoryForField st (fc_field bad)"
  shows "lr_memoryUpdates (learn md5 numberToString now st invoice (hc\<lparr> hc_corrections := pre @ bad # post \<rparr>))
           = lr_memoryUpdates (learn md5 numberToString now st invoice (hc\<lparr> hc_corrections := pre @ post \<rparr>))
       \<and> lr_auditDetails (learn md5 numberToString now st invoice (hc\<lparr> hc_corrections := pre @ bad # post \<rparr>))
           = lr_auditDetails (learn md5 numberToString now st invoice (hc\<lparr> hc_corrections := pre @ post \<rparr>))
       \<and> vendor_memories (lr_store (learn md5 numberToString now st invoice (hc\<lparr> hc_corrections := pre @ bad # post \<rparr>)))
           = vendor_memories (lr_store (learn md5 numberToString now st invoice (hc\<lparr> hc_corrections := pre @ post \<rparr>)))
       \<and> correction_memories (lr_store (learn md5 numberToString now st invoice (hc\<lparr> hc_corrections := pre @ bad # post \<rparr>)))
           = correction_memories (lr_store (learn md5 numberToString now st invoice (hc\<lparr> hc_corrections := pre @ post \<rparr>)))
       \<and> map rm_discrepancyType
             (resolution_memories (lr_store (learn md5 numberToString now st invoice (hc\<lparr> hc_corrections := pre @ bad # post \<rparr>))))
           = map rm_discrepancyType (resolution_memories st) @ map fc_field (pre @ bad # post)"
proof -
  have nm: "noMemoryForField (fst (ensureVendorMemory st (vendor invoice))) (fc_field bad)"
    using assms(2) by (simp add: noMemoryForField_def corr_ensureVendorMemory)
  note skip = foldl_skip[OF assms(1) nm, of "vendor invoice" "hc_finalDecision hc" pre post]
  show ?thesis
    unfolding learn_tables by (simp add: skip del: foldl_append)
qed


theorem learn_skips_unmatched_correction_witness:
  "noRuleApplies ex_invoice ex_bad_correction
   \<and> noMemoryForField emptyStore (fc_field ex_bad_correction)
   \<and> lr_auditDetails (learn ex_md5 ex_numberToString 1000 emptyStore ex_invoice
                         (ex_batch [ex_bad_correction, ex_sku_fix]))
       = lr_auditDetails (learn ex_md5 ex_numberToString 1000 emptyStore ex_invoice (ex_batch [ex_sku_fix]))
   \<and> map rm_discrepancyType
         (resolution_memories (lr_store (learn ex_md5 ex_numberToString 1000 emptyStore ex_invoice
                                           (ex_batch [ex_bad_correction, ex_sku_fix]))))
       = [''lineItems[5].sku'', ''lineItems[0].sku'']"
proof -
  have h1: "noRuleApplies ex_invoice ex_bad_correction" by (rule ex_bad_noRule)
  have h2: "noMemoryForField emptyStore (fc_field ex_bad_correction)"
    by (simp add: noMemoryForField_def emptyStore_def)
  have b1: "(ex_batch [])\<lparr> hc_corrections := [] @ ex_bad_correction # [ex_sku_fix] \<rparr>
              = ex_batch [ex_bad_correction, ex_sku_fix]"
    by (simp add: ex_batch_def)
  have b2: "(ex_batch [])\<lparr> hc_corrections := [] @ [ex_sku_fix] \<rparr> = ex_batch [ex_sku_fix]"
    by (simp add: ex_batch_def)
  have r: "map rm_discrepancyType (resolution_memories emptyStore)
             @ map fc_field ([] @ ex_bad_correction # [ex_sku_fix])
           = [''lineItems[5].sku'', ''lineItems[0].sku'']"
    by (simp add: emptyStore_def ex_bad_correction_def ex_sku_fix_def)
  show ?thesis
    using learn_skips_unmatched_correction[OF h1 h2, where ?md5.0 = ex_md5
            and numberToString = ex_numberToString and now = 1000
            and hc = "ex_batch []" and pre = "[]" and post = "[ex_sku_fix]"]
    unfolding b1 b2 r using h1 h2 by simp
qed

text \<open>
  C9 as stated fails in its last part: for a batch holding only a correction of line item
  5 on an invoice with one line item, the audit note consists of the vendor-memory
  creation and the ledger entry, as for an empty batch.
\<close>

theorem learn_audit_omits_skipped_counterexample:
  "noRuleApplies ex_invoice ex_bad_correction
   \<and> lr_auditDetails (learn ex_md5 ex_numberToString 1000 emptyStore ex_invoice
                         (ex_batch [ex_bad_correction]))
       = [CreatedVendorMemory ''Parts AG'', RecordedInvoice ''INV-B-003'']"
proof -
  have nm: "noMemoryForField (fst (ensureVendorMemory emptyStore (vendor ex_invoice)))
              (fc_field ex_bad_correction)"
    by (simp add: noMemoryForField_def corr_ensureVendorMemory emptyStore_def)
  have "lr_auditDetails (learn ex_md5 ex_numberToString 1000 emptyStore ex_invoice
                           (ex_batch [ex_bad_correction]))
        = lr_auditDetails (learn ex_md5 ex_numberToString 1000 emptyStore ex_invoice (ex_batch []))"
    using foldl_skip[OF ex_bad_noRule nm, of "vendor ex_invoice" approved "[]" "[]"]
    by (simp add: learn_tables ex_batch_def)
  then show ?thesis
    by (simp add: ex_learn_empty_batch ex_bad_noRule)
qed

subsection \<open>Learn: currency corrections\<close>








lemma ids_weaken:
  "map cm_id (correction_memories (weakenCorrection st i)) = map cm_id (correction_memories st)"
  "nextId (weakenCorrection st i) = nextId st"
  by (auto simp: weakenCorrection_def Let_def split: option.splits)













lemma vendor_correction_ops [simp]:
  "vendor_memories (reinforceCorrection st i) = vendor_memories st"
  "vendor_memories (weakenCorrection st i) = vendor_memories st"
  "vendor_memories (fst (recordCorrection st v f p t x)) = vendor_memories st"
  by (simp_all add: reinforceCorrection_def weakenCorrection_def recordCorrection_def Let_def
      split: option.splits)







end
